theory Spec2Isabelle
  imports Complex_Main
begin

section \<open>Python values used by the sensors\<close>

text \<open>
  The two sensor classes of \<^verbatim>\<open>power_based_sensors.py\<close> compute with Python floats
  (\<^verbatim>\<open>RealTimeCostSensor\<close>), with \<^verbatim>\<open>decimal.Decimal\<close> under the default context
  (\<^verbatim>\<open>UtilityMeterSensor\<close>) and with \<^verbatim>\<open>datetime\<close> values. Each is modelled at the
  level of its numeric value: a finite float or Decimal is the rational number it denotes,
  and every operation is the exact operation followed by the rounding the language
  applies. The sign of a zero and the payload of a NaN are not represented; no
  comparison or arithmetic result that the sensors use depends on them.
\<close>

subsection \<open>Exceptions\<close>

datatype py_exception =
    AttributeError
  | NameError
  | ValueError
  | TypeError
  | ZeroDivisionError
  | OverflowError
  | UnboundLocalError
  | InvalidOperation
  | DivisionByZero
  | DecimalOverflow

subsection \<open>Rounding\<close>

text \<open>Round half to even, the rounding of IEEE 754 and of the default Decimal context.\<close>

definition round_half_even :: "rat \<Rightarrow> int" where
  "round_half_even x =
     (let f = \<lfloor>x\<rfloor>; d = x - of_int f
      in if d < 1 / 2 then f
         else if 1 / 2 < d then f + 1
         else if even f then f else f + 1)"

text \<open>The number of digits of \<open>n\<close> in base \<open>b\<close> (one digit for 0).\<close>

fun num_digits :: "nat \<Rightarrow> nat \<Rightarrow> nat" where
  "num_digits b n = (if b < 2 \<or> n < b then 1 else Suc (num_digits b (n div b)))"

declare num_digits.simps [simp del]

text \<open>
  \<open>ilog b a\<close> is \<open>\<lfloor>log\<^sub>b a\<rfloor>\<close> for a positive rational \<open>a\<close>: the exponent of its leading
  digit in base \<open>b\<close> (\<^verbatim>\<open>Decimal.adjusted()\<close> for base 10). The digit counts of numerator
  and denominator fix it up to one, and one comparison decides.
\<close>

definition ilog :: "nat \<Rightarrow> rat \<Rightarrow> int" where
  "ilog b a =
     (let (p, q) = quotient_of a;
          k = int (num_digits b (nat p)) - int (num_digits b (nat q))
      in if of_nat b powi k \<le> a then k else k - 1)"

subsection \<open>Python floats (IEEE 754 binary64)\<close>

datatype pyfloat = Finite rat | PosInf | NegInf | NaN

text \<open>
  Round a rational to the nearest binary64 value, ties to even: 53 bits of precision,
  least normal exponent \<open>-1022\<close> (below it the spacing stays \<open>2\<^sup>-\<^sup>1\<^sup>0\<^sup>7\<^sup>4\<close>), overflow to an
  infinity from \<open>2\<^sup>1\<^sup>0\<^sup>2\<^sup>4\<close> on.
\<close>

definition rnd64 :: "rat \<Rightarrow> pyfloat" where
  "rnd64 q =
     (if q = 0 then Finite 0
      else let a = \<bar>q\<bar>;
               e = max (ilog 2 a) (- 1022);
               u = 2 powi (e - 52);
               r = of_int (round_half_even (a / u)) * u
           in if 2 powi 1024 \<le> r then (if q < 0 then NegInf else PosInf)
              else Finite (if q < 0 then - r else r))"

text \<open>\<^verbatim>\<open>x * y\<close> on floats.\<close>

fun float_mul :: "pyfloat \<Rightarrow> pyfloat \<Rightarrow> pyfloat" where
  "float_mul NaN _ = NaN"
| "float_mul _ NaN = NaN"
| "float_mul (Finite a) (Finite b) = rnd64 (a * b)"
| "float_mul (Finite a) PosInf = (if a = 0 then NaN else if a < 0 then NegInf else PosInf)"
| "float_mul (Finite a) NegInf = (if a = 0 then NaN else if a < 0 then PosInf else NegInf)"
| "float_mul PosInf (Finite b) = (if b = 0 then NaN else if b < 0 then NegInf else PosInf)"
| "float_mul NegInf (Finite b) = (if b = 0 then NaN else if b < 0 then PosInf else NegInf)"
| "float_mul PosInf PosInf = PosInf"
| "float_mul PosInf NegInf = NegInf"
| "float_mul NegInf PosInf = NegInf"
| "float_mul NegInf NegInf = PosInf"

text \<open>\<^verbatim>\<open>x / n\<close> for a float \<open>x\<close> and an int \<open>n\<close> that a float holds exactly (here the
  literal 1000): Python raises \<^verbatim>\<open>ZeroDivisionError\<close> on a zero divisor.\<close>

definition float_truediv_int :: "pyfloat \<Rightarrow> int \<Rightarrow> py_exception + pyfloat" where
  "float_truediv_int x n =
     (if n = 0 then Inl ZeroDivisionError
      else Inr (case x of
                  Finite a \<Rightarrow> rnd64 (a / of_int n)
                | PosInf \<Rightarrow> (if n < 0 then NegInf else PosInf)
                | NegInf \<Rightarrow> (if n < 0 then PosInf else NegInf)
                | NaN \<Rightarrow> NaN))"

text \<open>
  \<^verbatim>\<open>round(x, ndigits)\<close> for a float and \<open>ndigits \<ge> 0\<close>: infinities and NaN round to
  themselves; a finite value is rounded half-even, on its exact value, to \<open>ndigits\<close>
  decimal places, and the decimal result is converted back to the nearest float.
\<close>

definition float_round :: "pyfloat \<Rightarrow> nat \<Rightarrow> pyfloat" where
  "float_round x ndigits =
     (case x of
        Finite a \<Rightarrow> rnd64 (of_int (round_half_even (a * 10 ^ ndigits)) / 10 ^ ndigits)
      | PosInf \<Rightarrow> PosInf
      | NegInf \<Rightarrow> NegInf
      | NaN \<Rightarrow> NaN)"

subsection \<open>Decimal under the default context\<close>

text \<open>
  The default context: precision 28, \<^verbatim>\<open>ROUND_HALF_EVEN\<close>, \<^verbatim>\<open>Emax = 999999\<close>,
  \<^verbatim>\<open>Emin = -999999\<close>, and the traps \<^verbatim>\<open>InvalidOperation\<close>, \<^verbatim>\<open>DivisionByZero\<close> and
  \<^verbatim>\<open>Overflow\<close>, each of which raises. \<open>DSNaN\<close> is a signalling NaN.
\<close>

datatype decimal = DFin rat | DPosInf | DNegInf | DNaN | DSNaN

text \<open>
  \<^verbatim>\<open>Decimal._fix\<close>: the exact result \<open>q\<close> of an operation rounded to 28 significant
  digits, but never finer than \<^verbatim>\<open>Etiny = Emin - prec + 1\<close>; \<^verbatim>\<open>Overflow\<close> when the rounded
  value's leading digit lies above \<^verbatim>\<open>Emax\<close>.
\<close>

definition ctx_fix :: "rat \<Rightarrow> py_exception + decimal" where
  "ctx_fix q =
     (if q = 0 then Inr (DFin 0)
      else let a = \<bar>q\<bar>;
               x = max (ilog 10 a - 27) (- 1000026);
               r = of_int (round_half_even (a / 10 powi x)) * 10 powi x
           in if r = 0 then Inr (DFin 0)
              else if 999999 < ilog 10 r then Inl DecimalOverflow
              else Inr (DFin (if q < 0 then - r else r)))"

text \<open>\<^verbatim>\<open>x * y\<close> on Decimals.\<close>

definition dec_is_nan :: "decimal \<Rightarrow> bool" where
  "dec_is_nan x = (x = DNaN \<or> x = DSNaN)"

definition dec_negative :: "decimal \<Rightarrow> bool" where
  "dec_negative x = (case x of DFin a \<Rightarrow> a < 0 | DNegInf \<Rightarrow> True | _ \<Rightarrow> False)"

definition dec_inf :: "bool \<Rightarrow> decimal" where
  "dec_inf negative = (if negative then DNegInf else DPosInf)"

definition dec_mul :: "decimal \<Rightarrow> decimal \<Rightarrow> py_exception + decimal" where
  "dec_mul x y =
     (if x = DSNaN \<or> y = DSNaN then Inl InvalidOperation
      else if x = DNaN \<or> y = DNaN then Inr DNaN
      else case (x, y) of
             (DFin a, DFin b) \<Rightarrow> ctx_fix (a * b)
           | (DFin a, _) \<Rightarrow>
               (if a = 0 then Inl InvalidOperation
                else Inr (dec_inf (dec_negative x \<noteq> dec_negative y)))
           | (_, DFin b) \<Rightarrow>
               (if b = 0 then Inl InvalidOperation
                else Inr (dec_inf (dec_negative x \<noteq> dec_negative y)))
           | _ \<Rightarrow> Inr (dec_inf (dec_negative x \<noteq> dec_negative y)))"

text \<open>\<^verbatim>\<open>x / y\<close> on Decimals.\<close>

definition dec_truediv :: "decimal \<Rightarrow> decimal \<Rightarrow> py_exception + decimal" where
  "dec_truediv x y =
     (if x = DSNaN \<or> y = DSNaN then Inl InvalidOperation
      else if x = DNaN \<or> y = DNaN then Inr DNaN
      else case (x, y) of
             (DFin a, DFin b) \<Rightarrow>
               (if b = 0 then (if a = 0 then Inl InvalidOperation else Inl DivisionByZero)
                else ctx_fix (a / b))
           | (DFin a, _) \<Rightarrow> Inr (DFin 0)
           | (_, DFin b) \<Rightarrow> Inr (dec_inf (dec_negative x \<noteq> dec_negative y))
           | _ \<Rightarrow> Inl InvalidOperation)"

text \<open>\<^verbatim>\<open>x + y\<close> on Decimals.\<close>

definition dec_add :: "decimal \<Rightarrow> decimal \<Rightarrow> py_exception + decimal" where
  "dec_add x y =
     (if x = DSNaN \<or> y = DSNaN then Inl InvalidOperation
      else if x = DNaN \<or> y = DNaN then Inr DNaN
      else case (x, y) of
             (DFin a, DFin b) \<Rightarrow> ctx_fix (a + b)
           | (DFin a, _) \<Rightarrow> Inr y
           | (_, DFin b) \<Rightarrow> Inr x
           | _ \<Rightarrow> (if x = y then Inr x else Inl InvalidOperation))"

text \<open>
  \<^verbatim>\<open>x.quantize(Decimal("0.01"))\<close>: a quiet NaN is returned as it is; an infinity is an
  invalid operation; a finite value is rounded half-even to two decimal places, and the
  operation is invalid when the coefficient of the result would need more than 28 digits.
\<close>

definition dec_quantize_cents :: "decimal \<Rightarrow> py_exception + decimal" where
  "dec_quantize_cents x =
     (case x of
        DSNaN \<Rightarrow> Inl InvalidOperation
      | DNaN \<Rightarrow> Inr DNaN
      | DPosInf \<Rightarrow> Inl InvalidOperation
      | DNegInf \<Rightarrow> Inl InvalidOperation
      | DFin a \<Rightarrow>
          (let c = round_half_even (a * 100)
           in if 10 ^ 28 \<le> \<bar>c\<bar> then Inl InvalidOperation else Inr (DFin (of_int c / 100))))"

text \<open>\<^verbatim>\<open>Decimal(x)\<close> for a float \<open>x\<close> is exact.\<close>

definition decimal_of_float :: "pyfloat \<Rightarrow> decimal" where
  "decimal_of_float x =
     (case x of Finite a \<Rightarrow> DFin a | PosInf \<Rightarrow> DPosInf | NegInf \<Rightarrow> DNegInf | NaN \<Rightarrow> DNaN)"

text \<open>
  \<^verbatim>\<open>x != d\<close> for a float \<open>x\<close> and a Decimal \<open>d\<close>: the float is converted exactly and the
  values are compared; a NaN on either side is unequal to everything, itself included.
\<close>

definition float_ne_decimal :: "pyfloat \<Rightarrow> decimal \<Rightarrow> bool" where
  "float_ne_decimal x d = (x = NaN \<or> dec_is_nan d \<or> decimal_of_float x \<noteq> d)"

subsection \<open>Numeric strings\<close>

definition is_space :: "char \<Rightarrow> bool" where
  "is_space c = ((of_char c :: nat) \<in> set [9, 10, 11, 12, 13, 28, 29, 30, 31, 32])"

definition strip :: "string \<Rightarrow> string" where
  "strip s = rev (dropWhile is_space (rev (dropWhile is_space s)))"

definition is_digit :: "char \<Rightarrow> bool" where
  "is_digit c = (48 \<le> (of_char c :: nat) \<and> (of_char c :: nat) \<le> 57)"

definition digits_value :: "string \<Rightarrow> nat" where
  "digits_value ds = foldl (\<lambda>n c. 10 * n + (of_char c - 48)) 0 ds"

definition lower :: "string \<Rightarrow> string" where
  "lower s =
     map (\<lambda>c. if 65 \<le> (of_char c :: nat) \<and> (of_char c :: nat) \<le> 90
               then char_of ((of_char c :: nat) + 32) else c) s"

definition split_sign :: "string \<Rightarrow> bool \<times> string" where
  "split_sign s =
     (case s of
        [] \<Rightarrow> (False, [])
      | c # r \<Rightarrow>
          if c = CHR ''-'' then (True, r)
          else if c = CHR ''+'' then (False, r)
          else (False, s))"

text \<open>The exponent part of a numeric string: empty, or \<^verbatim>\<open>E[-+]?\d+\<close> up to its end.\<close>

definition parse_exponent :: "string \<Rightarrow> int option" where
  "parse_exponent s =
     (case s of
        [] \<Rightarrow> Some 0
      | c # r \<Rightarrow>
          if c = CHR ''e'' \<or> c = CHR ''E''
          then (let (negative, ds) = split_sign r
                in if ds = [] then None
                   else if list_all is_digit ds
                   then Some (if negative then - int (digits_value ds) else int (digits_value ds))
                   else None)
          else None)"

text \<open>
  An unsigned decimal number \<^verbatim>\<open>\d*(\.\d*)?(E[-+]?\d+)?\<close> with at least one digit before the
  exponent: its coefficient \<open>c\<close> and exponent \<open>e\<close>, the value being \<open>c * 10\<^sup>e\<close>.
\<close>

definition parse_number :: "string \<Rightarrow> (nat \<times> int) option" where
  "parse_number s =
     (let ip = takeWhile is_digit s;
          r1 = dropWhile is_digit s;
          has_point = (case r1 of [] \<Rightarrow> False | c # _ \<Rightarrow> c = CHR ''.'');
          fp = (if has_point then takeWhile is_digit (tl r1) else []);
          r2 = (if has_point then dropWhile is_digit (tl r1) else r1)
      in if ip = [] \<and> fp = [] then None
         else map_option (\<lambda>e. (digits_value (ip @ fp), e - int (length fp)))
                (parse_exponent r2))"

definition signed :: "bool \<Rightarrow> rat \<Rightarrow> rat" where
  "signed negative a = (if negative then - a else a)"

text \<open>What a numeric string denotes: a signed number \<open>c * 10\<^sup>e\<close>, an infinity or a NaN.\<close>

datatype numeric_literal =
    Number bool nat int
  | Infinity bool
  | Quiet_NaN
  | Signalling_NaN

text \<open>
  \<^verbatim>\<open>Decimal(s)\<close> for a string: surrounding whitespace is stripped and every underscore
  removed; then a sign, and a number, an infinity or a NaN (\<^verbatim>\<open>NaN\<close> or \<^verbatim>\<open>sNaN\<close>, with
  optional diagnostic digits), in any letter case. The conversion is exact. Anything
  else raises \<^verbatim>\<open>InvalidOperation\<close>. Only ASCII digits and spaces are modelled.
\<close>

definition decimal_literal :: "string \<Rightarrow> numeric_literal option" where
  "decimal_literal v =
     (let (negative, body) = split_sign (filter (\<lambda>c. c \<noteq> CHR ''_'') (strip v));
          lb = lower body
      in if lb = ''inf'' \<or> lb = ''infinity'' then Some (Infinity negative)
         else if take 3 lb = ''nan'' \<and> list_all is_digit (drop 3 lb) then Some Quiet_NaN
         else if take 4 lb = ''snan'' \<and> list_all is_digit (drop 4 lb) then Some Signalling_NaN
         else map_option (\<lambda>(c, e). Number negative c e) (parse_number body))"

definition decimal_of_str :: "string \<Rightarrow> py_exception + decimal" where
  "decimal_of_str v =
     (case decimal_literal v of
        None \<Rightarrow> Inl InvalidOperation
      | Some (Number negative c e) \<Rightarrow> Inr (DFin (signed negative (of_nat c * 10 powi e)))
      | Some (Infinity negative) \<Rightarrow> Inr (dec_inf negative)
      | Some Quiet_NaN \<Rightarrow> Inr DNaN
      | Some Signalling_NaN \<Rightarrow> Inr DSNaN)"

text \<open>In a float literal an underscore may stand only between two digits.\<close>

fun underscores_ok :: "bool \<Rightarrow> string \<Rightarrow> bool" where
  "underscores_ok after_digit [] = True"
| "underscores_ok after_digit (c # r) =
     (if c = CHR ''_''
      then after_digit \<and> (case r of [] \<Rightarrow> False | d # _ \<Rightarrow> is_digit d) \<and> underscores_ok False r
      else underscores_ok (is_digit c) r)"

text \<open>
  \<^verbatim>\<open>float(s)\<close> for a string: surrounding whitespace is stripped; then a sign, and a
  decimal number, \<^verbatim>\<open>inf\<close>, \<^verbatim>\<open>infinity\<close> or \<^verbatim>\<open>nan\<close> in any letter case. The value is rounded
  to the nearest float. Anything else raises \<^verbatim>\<open>ValueError\<close>. Only ASCII digits and
  spaces are modelled.
\<close>

definition float_literal :: "string \<Rightarrow> numeric_literal option" where
  "float_literal v =
     (let s = strip v
      in if underscores_ok False s
         then (let (negative, body) = split_sign (filter (\<lambda>c. c \<noteq> CHR ''_'') s);
                   lb = lower body
               in if lb = ''inf'' \<or> lb = ''infinity'' then Some (Infinity negative)
                  else if lb = ''nan'' then Some Quiet_NaN
                  else map_option (\<lambda>(c, e). Number negative c e) (parse_number body))
         else None)"

definition float_of_str :: "string \<Rightarrow> py_exception + pyfloat" where
  "float_of_str v =
     (case float_literal v of
        None \<Rightarrow> Inl ValueError
      | Some (Number negative c e) \<Rightarrow> Inr (rnd64 (signed negative (of_nat c * 10 powi e)))
      | Some (Infinity negative) \<Rightarrow> Inr (if negative then NegInf else PosInf)
      | Some Quiet_NaN \<Rightarrow> Inr NaN
      | Some Signalling_NaN \<Rightarrow> Inl ValueError)"

subsection \<open>datetime\<close>

text \<open>
  A \<^verbatim>\<open>datetime\<close> is modelled by its wall-clock fields. The host's \<^verbatim>\<open>now()\<close> returns
  values that share one \<^verbatim>\<open>tzinfo\<close>; addition of a \<^verbatim>\<open>timedelta\<close>, \<^verbatim>\<open>replace\<close> and the
  difference of two such values work on the wall-clock fields and carry the \<^verbatim>\<open>tzinfo\<close>
  along unchanged, so it is not represented.
\<close>

record datetime =
  year :: int
  month :: int
  day :: int
  hour :: int
  minute :: int
  second :: int
  microsecond :: int

definition is_leap :: "int \<Rightarrow> bool" where
  "is_leap y = (y mod 4 = 0 \<and> (y mod 100 \<noteq> 0 \<or> y mod 400 = 0))"

definition days_in_month :: "int \<Rightarrow> int \<Rightarrow> int" where
  "days_in_month y m =
     (if m = 2 then (if is_leap y then 29 else 28)
      else if m = 4 \<or> m = 6 \<or> m = 9 \<or> m = 11 then 30
      else 31)"

definition days_before_year :: "int \<Rightarrow> int" where
  "days_before_year y = (let y1 = y - 1 in y1 * 365 + y1 div 4 - y1 div 100 + y1 div 400)"

definition days_before_month :: "int \<Rightarrow> int \<Rightarrow> int" where
  "days_before_month y m =
     [0, 31, 59, 90, 120, 151, 181, 212, 243, 273, 304, 334] ! nat (m - 1)
       + (if 2 < m \<and> is_leap y then 1 else 0)"

text \<open>\<^verbatim>\<open>toordinal()\<close>: the proleptic Gregorian ordinal of the date, 1 for 0001-01-01.\<close>

definition toordinal :: "datetime \<Rightarrow> int" where
  "toordinal t = days_before_year (year t) + days_before_month (year t) (month t) + day t"

text \<open>The field checks of the \<^verbatim>\<open>datetime\<close> constructor (\<^verbatim>\<open>MINYEAR = 1\<close>, \<^verbatim>\<open>MAXYEAR = 9999\<close>).\<close>

definition valid_datetime :: "datetime \<Rightarrow> bool" where
  "valid_datetime t =
     (1 \<le> year t \<and> year t \<le> 9999 \<and> 1 \<le> month t \<and> month t \<le> 12
      \<and> 1 \<le> day t \<and> day t \<le> days_in_month (year t) (month t)
      \<and> 0 \<le> hour t \<and> hour t < 24 \<and> 0 \<le> minute t \<and> minute t < 60
      \<and> 0 \<le> second t \<and> second t < 60 \<and> 0 \<le> microsecond t \<and> microsecond t < 1000000)"

text \<open>\<^verbatim>\<open>t.replace(...)\<close> builds a new \<^verbatim>\<open>datetime\<close> from the changed fields, and the constructor
  raises \<^verbatim>\<open>ValueError\<close> when a field is out of range.\<close>

definition replace_fields :: "datetime \<Rightarrow> py_exception + datetime" where
  "replace_fields t = (if valid_datetime t then Inr t else Inl ValueError)"

text \<open>The day after a date, in the calendar.\<close>

definition next_day :: "datetime \<Rightarrow> datetime" where
  "next_day t =
     (if day t < days_in_month (year t) (month t) then t\<lparr>day := day t + 1\<rparr>
      else if month t < 12 then t\<lparr>month := month t + 1, day := 1\<rparr>
      else t\<lparr>year := year t + 1, month := 1, day := 1\<rparr>)"

text \<open>
  \<^verbatim>\<open>t + timedelta(days=n)\<close>: the date whose ordinal is \<open>n\<close> greater, at the same time of
  day; \<^verbatim>\<open>OverflowError\<close> beyond 9999-12-31 (ordinal 3652059). The date is reached by
  \<open>n\<close> calendar steps; \<open>toordinal_next_day\<close> below shows that each step adds one to the
  ordinal.
\<close>

definition add_days :: "datetime \<Rightarrow> nat \<Rightarrow> py_exception + datetime" where
  "add_days t n =
     (if toordinal t + int n \<le> 3652059 then Inr ((next_day ^^ n) t) else Inl OverflowError)"

text \<open>The position of a wall-clock time on the time line, in microseconds.\<close>

definition to_microseconds :: "datetime \<Rightarrow> int" where
  "to_microseconds t =
     (((toordinal t * 24 + hour t) * 60 + minute t) * 60 + second t) * 1000000 + microsecond t"

text \<open>
  \<^verbatim>\<open>(a - b).total_seconds()\<close>: the difference is a \<^verbatim>\<open>timedelta\<close>, an exact number of
  microseconds; \<^verbatim>\<open>total_seconds()\<close> divides it by \<open>10\<^sup>6\<close> as a float.
\<close>

definition total_seconds_between :: "datetime \<Rightarrow> datetime \<Rightarrow> pyfloat" where
  "total_seconds_between a b = rnd64 (of_int (to_microseconds a - to_microseconds b) / 1000000)"

subsection \<open>Exceptions as values\<close>

definition and_then :: "py_exception + 'a \<Rightarrow> ('a \<Rightarrow> py_exception + 'b) \<Rightarrow> py_exception + 'b" where
  "and_then r f = (case r of Inl e \<Rightarrow> Inl e | Inr v \<Rightarrow> f v)"

text \<open>
  \<^verbatim>\<open>power_based_sensors.py\<close> imports only \<^verbatim>\<open>Decimal\<close> from \<^verbatim>\<open>decimal\<close> (line 2), and no
  other statement of the module binds the name \<^verbatim>\<open>InvalidOperation\<close>. Python evaluates the
  expression of an \<^verbatim>\<open>except\<close> clause when an exception reaches it, so in
  \<^verbatim>\<open>except InvalidOperation:\<close> (line 183) and \<^verbatim>\<open>except (InvalidOperation, TypeError)\<close>
  (line 290) the lookup of the name raises \<^verbatim>\<open>NameError\<close>, which leaves the function in
  place of the exception that was to be matched.
\<close>

definition except_InvalidOperation :: "py_exception \<Rightarrow> py_exception" where
  "except_InvalidOperation e = NameError"

section \<open>The host\<close>

text \<open>
  What a method does to the host is recorded as the list of calls it makes, in order. A
  log call keeps its level and the fixed part of its message. The result of a method is
  the object as the method leaves it, the calls made, and the exception that left the
  method, if one did.
\<close>

datatype log_level = DEBUG | INFO | ERROR

datatype host_call =
    Log log_level string
  | Write_ha_state decimal
  | Create_task_remove_job datetime
  | Track_point_in_time datetime
  | Track_state_change_event

record 's outcome =
  after :: 's
  calls :: "host_call list"
  raised :: "py_exception option"

text \<open>A state-change event: \<^verbatim>\<open>event.data["entity_id"]\<close> and the \<^verbatim>\<open>state\<close> string of
  \<^verbatim>\<open>event.data.get("new_state")\<close>, which is \<^verbatim>\<open>None\<close> when the entity was removed.\<close>

record event =
  entity_id :: string
  new_state :: "string option"

section \<open>RealTimeCostSensor\<close>

record real_time_cost_sensor =
  electricity_price_sensor_id :: string
  power_sensor_id :: string
  rtc_state :: decimal

text \<open>\<^verbatim>\<open>__init__\<close>: \<^verbatim>\<open>self._state = Decimal(0)\<close>.\<close>

definition RealTimeCostSensor_init :: "string \<Rightarrow> string \<Rightarrow> real_time_cost_sensor" where
  "RealTimeCostSensor_init price_id power_id =
     \<lparr>electricity_price_sensor_id = price_id, power_sensor_id = power_id, rtc_state = DFin 0\<rparr>"

text \<open>
  \<^verbatim>\<open>handle_state_change\<close> (lines 88 to 123). \<open>states\<close> is \<^verbatim>\<open>hass.states\<close>: the state string
  of each entity the host knows. When \<^verbatim>\<open>new_state\<close> is \<^verbatim>\<open>None\<close> the first test succeeds and
  the log message is formatted from \<^verbatim>\<open>new_state.state\<close>, which raises \<^verbatim>\<open>AttributeError\<close>;
  so does \<^verbatim>\<open>hass.states.get(...).state\<close> for an entity the host does not know.
\<close>

definition handle_state_change ::
  "real_time_cost_sensor \<Rightarrow> (string \<rightharpoonup> string) \<Rightarrow> event \<Rightarrow> real_time_cost_sensor outcome" where
  "handle_state_change self states ev =
     (case new_state ev of
        None \<Rightarrow> \<lparr>after = self, calls = [], raised = Some AttributeError\<rparr>
      | Some s \<Rightarrow>
          if s \<in> set [''unknown'', ''unavailable'']
          then \<lparr>after = self, calls = [Log INFO ''skipping update.''], raised = None\<rparr>
          else
            (case states (electricity_price_sensor_id self) of
               None \<Rightarrow> \<lparr>after = self, calls = [], raised = Some AttributeError\<rparr>
             | Some electricity_price \<Rightarrow>
                 (case states (power_sensor_id self) of
                    None \<Rightarrow> \<lparr>after = self, calls = [], raised = Some AttributeError\<rparr>
                  | Some power_usage \<Rightarrow>
                      if electricity_price = [] \<or> power_usage = []
                         \<or> electricity_price \<in> set [''unknown'', ''unavailable'']
                         \<or> power_usage \<in> set [''unknown'', ''unavailable'']
                      then \<lparr>after = self,
                            calls = [Log INFO ''One or more sensor values are unavailable, skipping update.''],
                            raised = None\<rparr>
                      else
                        (case and_then (float_of_str electricity_price) (\<lambda>price.
                              and_then (float_of_str power_usage) (\<lambda>power.
                              and_then (float_truediv_int power 1000) (\<lambda>kw.
                              Inr (float_round (float_mul price kw) 2)))) of
                           Inl e \<Rightarrow>
                             if e = ValueError
                             then \<lparr>after = self,
                                   calls = [Log ERROR ''Error converting sensor data to float''],
                                   raised = None\<rparr>
                             else \<lparr>after = self, calls = [], raised = Some e\<rparr>
                         | Inr calculated_cost \<Rightarrow>
                             if float_ne_decimal calculated_cost (rtc_state self)
                             then \<lparr>after = self\<lparr>rtc_state := decimal_of_float calculated_cost\<rparr>,
                                   calls = [Write_ha_state (decimal_of_float calculated_cost),
                                            Log DEBUG ''Updated Real Time Energy Cost''],
                                   raised = None\<rparr>
                             else \<lparr>after = self, calls = [], raised = None\<rparr>))))"

section \<open>UtilityMeterSensor\<close>

text \<open>
  \<open>reset_timer\<close> is the attribute \<^verbatim>\<open>_reset_timer\<close>: absent until \<^verbatim>\<open>schedule_next_reset\<close>
  first sets it (\<^verbatim>\<open>hasattr\<close>), then what \<^verbatim>\<open>async_track_point_in_time\<close> returned for the
  timer armed last, named here by the time the timer was armed for.
\<close>

record utility_meter_sensor =
  interval :: string
  ums_state :: decimal
  last_update :: datetime
  reset_timer :: "datetime option"

text \<open>\<^verbatim>\<open>__init__\<close> (lines 162 to 173); \<open>t\<close> is the reading of \<^verbatim>\<open>now()\<close>.\<close>

definition UtilityMeterSensor_init :: "string \<Rightarrow> datetime \<Rightarrow> utility_meter_sensor" where
  "UtilityMeterSensor_init iv t =
     \<lparr>interval = iv, ums_state = DFin 0, last_update = t, reset_timer = None\<rparr>"

text \<open>
  \<^verbatim>\<open>calculate_next_reset_time\<close> (lines 201 to 227); \<open>current_time\<close> is the reading of
  \<^verbatim>\<open>now()\<close>. For an interval other than the three, \<^verbatim>\<open>next_reset\<close> is read unbound.
\<close>

definition midnight :: "datetime \<Rightarrow> datetime" where
  "midnight t = t\<lparr>hour := 0, minute := 0, second := 0, microsecond := 0\<rparr>"

definition calculate_next_reset_time :: "string \<Rightarrow> datetime \<Rightarrow> py_exception + datetime" where
  "calculate_next_reset_time iv current_time =
     (if iv = ''daily''
      then and_then (add_days current_time 1) (\<lambda>t. replace_fields (midnight t))
      else if iv = ''monthly''
      then and_then (replace_fields (current_time\<lparr>day := 1\<rparr>)) (\<lambda>first.
           and_then (add_days first 32) (\<lambda>later.
           and_then (replace_fields (later\<lparr>day := 1\<rparr>)) (\<lambda>next_month.
           replace_fields (midnight next_month))))
      else if iv = ''yearly''
      then replace_fields
             (midnight (current_time\<lparr>year := year current_time + 1, month := 1, day := 1\<rparr>))
      else Inl UnboundLocalError)"

text \<open>\<^verbatim>\<open>schedule_next_reset\<close> (lines 236 to 252); \<open>t\<close> is the reading of \<^verbatim>\<open>now()\<close> taken
  inside \<^verbatim>\<open>calculate_next_reset_time\<close>.\<close>

definition schedule_next_reset ::
  "utility_meter_sensor \<Rightarrow> datetime \<Rightarrow> utility_meter_sensor outcome" where
  "schedule_next_reset self t =
     (case calculate_next_reset_time (interval self) t of
        Inl e \<Rightarrow> \<lparr>after = self, calls = [], raised = Some e\<rparr>
      | Inr next_reset_time \<Rightarrow>
          \<lparr>after = self\<lparr>reset_timer := Some next_reset_time\<rparr>,
           calls = [Log DEBUG ''Calculated next reset time'']
                   @ (case reset_timer self of
                        None \<Rightarrow> []
                      | Some old \<Rightarrow> [Create_task_remove_job old])
                   @ [Log DEBUG ''Scheduling next reset'',
                      Track_point_in_time next_reset_time,
                      Log DEBUG ''Next reset scheduled successfully.''],
           raised = None\<rparr>)"

text \<open>\<^verbatim>\<open>_reset_meter\<close> (lines 254 to 260); \<open>t1\<close> and \<open>t2\<close> are its two readings of \<^verbatim>\<open>now()\<close>,
  the second taken inside \<^verbatim>\<open>schedule_next_reset\<close>.\<close>

definition reset_meter ::
  "utility_meter_sensor \<Rightarrow> datetime \<Rightarrow> datetime \<Rightarrow> utility_meter_sensor outcome" where
  "reset_meter self t1 t2 =
     (let r = schedule_next_reset (self\<lparr>ums_state := DFin 0, last_update := t1\<rparr>) t2
      in \<lparr>after = after r,
          calls = Write_ha_state (DFin 0) # calls r
                  @ (if raised r = None then [Log DEBUG ''Meter reset''] else []),
          raised = raised r\<rparr>)"

text \<open>\<^verbatim>\<open>async_reset\<close> (lines 229 to 234): \<^verbatim>\<open>self._state = 0\<close>.\<close>

definition async_reset :: "utility_meter_sensor \<Rightarrow> utility_meter_sensor outcome" where
  "async_reset self =
     \<lparr>after = self\<lparr>ums_state := DFin 0\<rparr>,
      calls = [Log DEBUG ''Resetting cost'', Write_ha_state (DFin 0)],
      raised = None\<rparr>"

text \<open>
  The restore step of \<^verbatim>\<open>async_added_to_hass\<close> (lines 179 to 186). \<open>last_state\<close> is the
  \<^verbatim>\<open>state\<close> string of what \<^verbatim>\<open>async_get_last_state()\<close> returned, \<open>None\<close> when nothing was
  persisted.
\<close>

definition restore_state ::
  "utility_meter_sensor \<Rightarrow> string option \<Rightarrow> py_exception + utility_meter_sensor" where
  "restore_state self last_state =
     (case last_state of
        None \<Rightarrow> Inr self
      | Some s \<Rightarrow>
          if s \<in> set [''unknown'', ''unavailable''] then Inr self
          else (case decimal_of_str s of
                  Inr d \<Rightarrow> Inr (self\<lparr>ums_state := d\<rparr>)
                | Inl e \<Rightarrow> Inl (except_InvalidOperation e)))"

text \<open>\<^verbatim>\<open>async_added_to_hass\<close> (lines 175 to 199); \<open>t\<close> is the reading of \<^verbatim>\<open>now()\<close> taken
  inside \<^verbatim>\<open>schedule_next_reset\<close>.\<close>

definition async_added_to_hass ::
  "utility_meter_sensor \<Rightarrow> string option \<Rightarrow> datetime \<Rightarrow> utility_meter_sensor outcome" where
  "async_added_to_hass self last_state t =
     (case restore_state self last_state of
        Inl e \<Rightarrow> \<lparr>after = self, calls = [], raised = Some e\<rparr>
      | Inr restored \<Rightarrow>
          (let r = schedule_next_reset restored t
           in \<lparr>after = after r,
               calls = calls r
                       @ (if raised r = None
                          then [Log DEBUG ''Registering state change event'', Track_state_change_event]
                          else []),
               raised = raised r\<rparr>))"

text \<open>
  The arithmetic of \<^verbatim>\<open>_handle_real_time_cost_update\<close> (lines 276 to 284): the hours from
  \<open>since\<close> to the clock reading \<open>t\<close>, and the amount added for the rate \<open>current_cost\<close>.
\<close>

definition hours_passed :: "datetime \<Rightarrow> datetime \<Rightarrow> py_exception + decimal" where
  "hours_passed t since =
     dec_truediv (decimal_of_float (total_seconds_between t since)) (DFin 3600)"

definition cost_increment :: "decimal \<Rightarrow> decimal \<Rightarrow> py_exception + decimal" where
  "cost_increment current_cost hours = and_then (dec_mul current_cost hours) dec_quantize_cents"

text \<open>
  \<^verbatim>\<open>_handle_real_time_cost_update\<close> (lines 262 to 291); \<open>t1\<close> is the reading of \<^verbatim>\<open>now()\<close>
  at line 276 and \<open>t2\<close> the reading at line 285.
\<close>

definition handle_real_time_cost_update ::
  "utility_meter_sensor \<Rightarrow> event \<Rightarrow> datetime \<Rightarrow> datetime \<Rightarrow> utility_meter_sensor outcome" where
  "handle_real_time_cost_update self ev t1 t2 =
     (case new_state ev of
        None \<Rightarrow>
          \<lparr>after = self, calls = [Log DEBUG ''Skipping update due to unavailable state''],
           raised = None\<rparr>
      | Some s \<Rightarrow>
          if s \<in> set [''unknown'', ''unavailable'']
          then \<lparr>after = self, calls = [Log DEBUG ''Skipping update due to unavailable state''],
                raised = None\<rparr>
          else
            (case decimal_of_str s of
               Inl e \<Rightarrow>
                 \<lparr>after = self, calls = [], raised = Some (except_InvalidOperation e)\<rparr>
             | Inr current_cost \<Rightarrow>
                 (case hours_passed t1 (last_update self) of
                    Inl e \<Rightarrow>
                      \<lparr>after = self, calls = [Log DEBUG ''Current cost retrieved from state''],
                       raised = Some (except_InvalidOperation e)\<rparr>
                  | Inr hours \<Rightarrow>
                      (case and_then (cost_increment current_cost hours)
                                     (dec_add (ums_state self)) of
                         Inl e \<Rightarrow>
                           \<lparr>after = self,
                            calls = [Log DEBUG ''Current cost retrieved from state'',
                                     Log DEBUG ''Time difference calculated''],
                            raised = Some (except_InvalidOperation e)\<rparr>
                       | Inr new_total \<Rightarrow>
                           \<lparr>after = self\<lparr>ums_state := new_total, last_update := t2\<rparr>,
                            calls = [Log DEBUG ''Current cost retrieved from state'',
                                     Log DEBUG ''Time difference calculated'',
                                     Write_ha_state new_total,
                                     Log DEBUG ''Updated state''],
                            raised = None\<rparr>))))"

section \<open>Notions used in the properties\<close>

text \<open>\<^verbatim>\<open>datetime(y, m, d, h, mi, s, us)\<close>.\<close>

definition mk_datetime :: "int \<Rightarrow> int \<Rightarrow> int \<Rightarrow> int \<Rightarrow> int \<Rightarrow> int \<Rightarrow> int \<Rightarrow> datetime" where
  "mk_datetime y m d h mi s us =
     \<lparr>year = y, month = m, day = d, hour = h, minute = mi, second = s, microsecond = us\<rparr>"

text \<open>How many times a list of host calls publishes a state.\<close>

definition published :: "host_call list \<Rightarrow> nat" where
  "published cs = length (filter (\<lambda>c. case c of Write_ha_state _ \<Rightarrow> True | _ \<Rightarrow> False) cs)"

text \<open>\<^verbatim>\<open>d >= 0\<close> for a Decimal: a finite value not below zero, or the positive infinity.\<close>

definition dec_nonneg :: "decimal \<Rightarrow> bool" where
  "dec_nonneg d = (case d of DFin a \<Rightarrow> 0 \<le> a | DPosInf \<Rightarrow> True | _ \<Rightarrow> False)"

text \<open>A state string that is absent, does not parse as a Decimal, or parses to a value
  that is not below zero.\<close>

definition nonneg_state :: "string option \<Rightarrow> bool" where
  "nonneg_state st =
     (case st of
        None \<Rightarrow> True
      | Some s \<Rightarrow> (case decimal_of_str s of Inl _ \<Rightarrow> True | Inr d \<Rightarrow> dec_nonneg d))"

text \<open>The first day of the month after that of \<open>t\<close>, at the time of day of \<open>t\<close>.\<close>

definition first_of_next_month :: "datetime \<Rightarrow> datetime" where
  "first_of_next_month t =
     (if month t < 12 then t\<lparr>month := month t + 1, day := 1\<rparr>
      else t\<lparr>year := year t + 1, month := 1, day := 1\<rparr>)"

text \<open>
  What happens to a \<^verbatim>\<open>UtilityMeterSensor\<close> after it was added to the host: a state
  change of the rate sensor, the reset timer firing, or the reset service. Each comes
  with the clock readings the method takes.
\<close>

datatype meter_event =
    Rate_update event datetime datetime
  | Timer_fired datetime datetime
  | Service_reset

fun meter_step :: "utility_meter_sensor \<Rightarrow> meter_event \<Rightarrow> utility_meter_sensor" where
  "meter_step s (Rate_update ev t1 t2) = after (handle_real_time_cost_update s ev t1 t2)"
| "meter_step s (Timer_fired t1 t2) = after (reset_meter s t1 t2)"
| "meter_step s Service_reset = after (async_reset s)"

text \<open>A rate update is benign when its rate is not below zero and its first clock
  reading is not earlier than \<^verbatim>\<open>_last_update\<close>; a run is benign when each of its rate
  updates is, in the state in which it arrives.\<close>

fun benign :: "utility_meter_sensor \<Rightarrow> meter_event \<Rightarrow> bool" where
  "benign s (Rate_update ev t1 t2) =
     (nonneg_state (new_state ev) \<and> to_microseconds (last_update s) \<le> to_microseconds t1)"
| "benign s (Timer_fired t1 t2) = True"
| "benign s Service_reset = True"

fun benign_run :: "utility_meter_sensor \<Rightarrow> meter_event list \<Rightarrow> bool" where
  "benign_run s [] = True"
| "benign_run s (e # es) = (benign s e \<and> benign_run (meter_step s e) es)"

section \<open>Rounding is exact on representable values\<close>

lemma round_half_even_nonneg: "0 \<le> x \<Longrightarrow> 0 \<le> round_half_even x"
  by (auto simp: round_half_even_def Let_def)

lemma num_digits_pos: "0 < num_digits b n"
  by (subst num_digits.simps) simp

lemma num_digits_bounds:
  "2 \<le> b \<Longrightarrow> 0 < n \<Longrightarrow> b ^ (num_digits b n - 1) \<le> n \<and> n < b ^ num_digits b n"
proof (induction b n rule: num_digits.induct)
  case (1 b n)
  show ?case
  proof (cases "n < b")
    case True
    with 1 show ?thesis by (subst (1 2) num_digits.simps) simp
  next
    case False
    let ?m = "n div b"
    let ?k = "num_digits b ?m"
    from False 1(2) have m: "0 < ?m" by (simp add: div_greater_zero_iff)
    from 1(1)[OF _ 1(2) m] False 1(2)
    have ih: "b ^ (?k - 1) \<le> ?m" "?m < b ^ ?k" by auto
    have k: "0 < ?k" by (rule num_digits_pos)
    have nd: "num_digits b n = Suc ?k"
      using False 1(2) by (subst num_digits.simps) simp
    have "b ^ ?k = b * b ^ (?k - 1)" using k by (cases ?k) simp_all
    also have "\<dots> \<le> b * ?m" using ih(1) by simp
    also have "\<dots> \<le> n" by simp
    finally have lo: "b ^ ?k \<le> n" .
    have "n = b * ?m + n mod b" by simp
    moreover have "n mod b < b" using 1(2) by simp
    ultimately have "n < b * ?m + b" by linarith
    also have "\<dots> = b * Suc ?m" by simp
    also have "\<dots> \<le> b * b ^ ?k"
    proof (rule mult_le_mono2)
      show "Suc ?m \<le> b ^ ?k" using ih(2) by simp
    qed
    finally have hi: "n < b ^ Suc ?k" by simp
    from lo hi nd show ?thesis by simp
  qed
qed

lemma powi_mono: "(1::rat) \<le> x \<Longrightarrow> i \<le> j \<Longrightarrow> x powi i \<le> x powi j"
  by (rule power_int_increasing)

lemma ilog_bounds:
  assumes b: "2 \<le> b" and a: "0 < a"
  shows "of_nat b powi (ilog b a) \<le> a \<and> a < of_nat b powi (ilog b a + 1)"
proof -
  obtain p q where pq: "quotient_of a = (p, q)" by (cases "quotient_of a")
  have q: "0 < q" using pq by (rule quotient_of_denom_pos)
  have aeq: "a = of_int p / of_int q" using pq by (rule quotient_of_div)
  have p: "0 < p" using a q aeq by (simp add: zero_less_divide_iff)
  define dp where "dp = num_digits b (nat p)"
  define dq where "dq = num_digits b (nat q)"
  define B :: rat where "B = of_nat b"
  have B: "1 < B" "0 < B" "B \<noteq> 0" using b by (simp_all add: B_def)
  have bp: "b ^ (dp - 1) \<le> nat p" "nat p < b ^ dp"
    using num_digits_bounds[OF b, of "nat p"] p by (simp_all add: dp_def)
  have bq: "b ^ (dq - 1) \<le> nat q" "nat q < b ^ dq"
    using num_digits_bounds[OF b, of "nat q"] q by (simp_all add: dq_def)
  have dpos: "0 < dp" "0 < dq" by (simp_all add: dp_def dq_def num_digits_pos)
  have P: "B ^ (dp - 1) \<le> of_int p" "of_int p < B ^ dp"
  proof -
    have "(of_nat (b ^ (dp - 1)) :: rat) \<le> of_nat (nat p)" using bp(1) by (simp only: of_nat_le_iff)
    then show "B ^ (dp - 1) \<le> of_int p" using p by (simp add: B_def)
    have "(of_nat (nat p) :: rat) < of_nat (b ^ dp)" using bp(2) by (simp only: of_nat_less_iff)
    then show "of_int p < B ^ dp" using p by (simp add: B_def)
  qed
  have Q: "B ^ (dq - 1) \<le> of_int q" "of_int q < B ^ dq"
  proof -
    have "(of_nat (b ^ (dq - 1)) :: rat) \<le> of_nat (nat q)" using bq(1) by (simp only: of_nat_le_iff)
    then show "B ^ (dq - 1) \<le> of_int q" using q by (simp add: B_def)
    have "(of_nat (nat q) :: rat) < of_nat (b ^ dq)" using bq(2) by (simp only: of_nat_less_iff)
    then show "of_int q < B ^ dq" using q by (simp add: B_def)
  qed
  define k where "k = int dp - int dq"
  have qr: "(0::rat) < of_int q" using q by simp
  have up: "a < B powi (k + 1)"
  proof -
    have "B powi (k + 1) = B ^ dp / B ^ (dq - 1)"
    proof -
      have "k + 1 = int dp - int (dq - 1)" using dpos by (simp add: k_def)
      then show ?thesis using B(3) by (simp add: power_int_diff)
    qed
    moreover have "of_int p / of_int q < B ^ dp / B ^ (dq - 1)"
    proof -
      have "of_int p * B ^ (dq - 1) \<le> of_int p * of_int q"
        using Q(1) p by (simp add: mult_left_mono)
      also have "\<dots> < B ^ dp * of_int q" using P(2) qr by (simp add: mult_strict_right_mono)
      finally show ?thesis using qr B(2) by (simp add: divide_less_eq pos_less_divide_eq field_simps)
    qed
    ultimately show ?thesis by (simp add: aeq)
  qed
  have lo: "B powi (k - 1) \<le> a"
  proof -
    have "B powi (k - 1) = B ^ (dp - 1) / B ^ dq"
    proof -
      have "k - 1 = int (dp - 1) - int dq" using dpos by (simp add: k_def)
      then show ?thesis using B(3) by (simp add: power_int_diff)
    qed
    moreover have "B ^ (dp - 1) / B ^ dq \<le> of_int p / of_int q"
    proof -
      have "B ^ (dp - 1) * of_int q \<le> of_int p * of_int q"
        using P(1) qr by (simp add: mult_right_mono)
      also have "\<dots> \<le> of_int p * B ^ dq" using Q(2) p by (simp add: mult_left_mono)
      finally show ?thesis using qr B(2) by (simp add: field_simps)
    qed
    ultimately show ?thesis by (simp add: aeq)
  qed
  have il: "ilog b a = (if B powi k \<le> a then k else k - 1)"
    by (simp add: ilog_def pq Let_def dp_def dq_def k_def B_def)
  show ?thesis
  proof (cases "B powi k \<le> a")
    case True
    then show ?thesis using up il by (simp add: B_def)
  next
    case False
    then show ?thesis using lo il by (simp add: B_def)
  qed
qed

lemma ilog_unique:
  assumes b: "2 \<le> b" and lo: "of_nat b powi k \<le> a" and hi: "a < of_nat b powi (k + 1)"
  shows "ilog b a = k"
proof -
  define B :: rat where "B = of_nat b"
  have B: "1 \<le> B" "0 < B" using b by (simp_all add: B_def)
  have a: "0 < a" using lo B(2) by (metis B_def less_le_trans zero_less_power_int)
  note ib = ilog_bounds[OF b a, folded B_def]
  have "\<not> ilog b a < k"
  proof
    assume "ilog b a < k"
    then have "B powi (ilog b a + 1) \<le> B powi k" using B(1) by (intro powi_mono) simp_all
    then show False using ib lo by (simp add: B_def)
  qed
  moreover have "\<not> k < ilog b a"
  proof
    assume "k < ilog b a"
    then have "B powi (k + 1) \<le> B powi (ilog b a)" using B(1) by (intro powi_mono) simp_all
    then show False using ib hi by (simp add: B_def)
  qed
  ultimately show ?thesis by simp
qed

lemma round_half_even_of_int: "round_half_even (of_int n) = n"
  by (simp add: round_half_even_def Let_def)

lemma rnd64_exact:
  assumes lo: "2 powi e \<le> \<bar>q\<bar>" and hi: "\<bar>q\<bar> < 2 powi (e + 1)"
    and e: "- 1022 \<le> e" "e \<le> 1023"
    and n: "\<bar>q\<bar> / 2 powi (e - 52) = of_int n"
  shows "rnd64 q = Finite q"
proof -
  define a where "a = \<bar>q\<bar>"
  have il: "ilog 2 a = e" unfolding a_def using lo hi by (intro ilog_unique) simp_all
  have q0: "q \<noteq> 0"
  proof
    assume "q = 0"
    then have "(2::rat) powi e \<le> 0" using lo by simp
    moreover have "(0::rat) < 2 powi e" by (rule zero_less_power_int) simp
    ultimately show False by linarith
  qed
  have m: "max (ilog 2 a) (- 1022) = e" using il e by simp
  have u: "(2::rat) powi (e - 52) \<noteq> 0" by simp
  have "of_int n * 2 powi (e - 52) = \<bar>q\<bar>" using n u by (simp add: field_simps)
  then have rr: "of_int (round_half_even (a / 2 powi (e - 52))) * 2 powi (e - 52) = a"
    using n by (simp only: a_def round_half_even_of_int)
  have "(2::rat) powi (e + 1) \<le> 2 powi 1024" using e by (intro powi_mono) simp_all
  then have lt: "\<not> 2 powi 1024 \<le> a" using hi unfolding a_def by linarith
  have sg: "(if q < 0 then - a else a) = q" by (simp add: a_def)
  show ?thesis
    unfolding rnd64_def Let_def a_def[symmetric]
    by (simp only: m rr lt sg q0 if_False)
qed

lemma ctx_fix_exact:
  assumes lo: "10 powi e \<le> \<bar>q\<bar>" and hi: "\<bar>q\<bar> < 10 powi (e + 1)"
    and e: "- 999999 \<le> e" "e \<le> 999999"
    and n: "\<bar>q\<bar> / 10 powi (e - 27) = of_int n"
  shows "ctx_fix q = Inr (DFin q)"
proof -
  define a where "a = \<bar>q\<bar>"
  have il: "ilog 10 a = e" unfolding a_def using lo hi by (intro ilog_unique) simp_all
  have q0: "q \<noteq> 0"
  proof
    assume "q = 0"
    then have "(10::rat) powi e \<le> 0" using lo by simp
    moreover have "(0::rat) < 10 powi e" by (rule zero_less_power_int) simp
    ultimately show False by linarith
  qed
  have a0: "a \<noteq> 0" using q0 by (simp add: a_def)
  have m: "max (ilog 10 a - 27) (- 1000026) = e - 27" using il e by simp
  have u: "(10::rat) powi (e - 27) \<noteq> 0" by simp
  have "of_int n * 10 powi (e - 27) = \<bar>q\<bar>" using n u by (simp add: field_simps)
  then have rr: "of_int (round_half_even (a / 10 powi (e - 27))) * 10 powi (e - 27) = a"
    using n by (simp only: a_def round_half_even_of_int)
  have ov: "\<not> 999999 < ilog 10 a" using il e by simp
  have sg: "(if q < 0 then - a else a) = q" by (simp add: a_def)
  show ?thesis
    unfolding ctx_fix_def Let_def a_def[symmetric]
    by (simp only: m rr ov sg q0 a0 if_False)
qed

lemma rnd64_1800: "rnd64 1800 = Finite 1800"
  by (rule rnd64_exact[where e = 10 and n = "1800 * 2 ^ 42"]) simp_all

lemma ctx_fix_half: "ctx_fix (1 / 2) = Inr (DFin (1 / 2))"
  by (rule ctx_fix_exact[where e = "- 1" and n = "5 * 10 ^ 27"]) simp_all

lemma ctx_fix_1: "ctx_fix 1 = Inr (DFin 1)"
  by (rule ctx_fix_exact[where e = 0 and n = "10 ^ 27"]) simp_all

section \<open>The calendar\<close>

lemma div_step:
  fixes y k :: int
  assumes k: "0 < k"
  shows "y div k = (y - 1) div k + (if y mod k = 0 then 1 else 0)"
proof (cases "y mod k = 0")
  case True
  have "y - 1 = k * (y div k - 1) + (k - 1)"
    using True mult_div_mod_eq[of k y] by (simp add: algebra_simps)
  then have "(y - 1) div k = y div k - 1"
    by (rule int_div_pos_eq) (use k in simp_all)
  then show ?thesis using True by simp
next
  case False
  have m: "0 \<le> y mod k" "y mod k < k" using k by simp_all
  have "y - 1 = k * (y div k) + (y mod k - 1)"
    using mult_div_mod_eq[of k y] by (simp add: algebra_simps)
  then have "(y - 1) div k = y div k"
    by (rule int_div_pos_eq) (use False m in simp_all)
  then show ?thesis using False by simp
qed

lemma mod_0_trans:
  fixes y :: int
  assumes "y mod b = 0" "a dvd b"
  shows "y mod a = 0"
proof -
  from assms(1) have "b dvd y" by (simp add: dvd_eq_mod_eq_0)
  with assms(2) have "a dvd y" by (rule dvd_trans)
  then show ?thesis by (simp add: dvd_eq_mod_eq_0)
qed

lemma leap_count:
  fixes a4 a100 a400 b4 b100 b400 y :: int
  assumes "a4 = b4 + (if p4 then 1 else 0)"
    and "a100 = b100 + (if p100 then 1 else 0)"
    and "a400 = b400 + (if p400 then 1 else 0)"
    and "p100 \<longrightarrow> p4" and "p400 \<longrightarrow> p100"
  shows "y * 365 + a4 - a100 + a400
         = (y - 1) * 365 + b4 - b100 + b400
           + (if p4 \<and> (\<not> p100 \<or> p400) then 366 else 365)"
  using assms by (cases p4; cases p100; cases p400) (simp_all add: algebra_simps)

lemma days_before_year_Suc:
  "days_before_year (y + 1) = days_before_year y + (if is_leap y then 366 else 365)"
proof -
  have a: "y mod 100 = 0 \<longrightarrow> y mod 4 = 0"
  proof
    assume "y mod 100 = 0"
    then show "y mod 4 = 0" by (rule mod_0_trans) simp
  qed
  have b: "y mod 400 = 0 \<longrightarrow> y mod 100 = 0"
  proof
    assume "y mod 400 = 0"
    then show "y mod 100 = 0" by (rule mod_0_trans) simp
  qed
  have d1: "days_before_year (y + 1) = y * 365 + y div 4 - y div 100 + y div 400"
    by (simp only: days_before_year_def Let_def add_diff_cancel_right')
  have d0: "days_before_year y
            = (y - 1) * 365 + (y - 1) div 4 - (y - 1) div 100 + (y - 1) div 400"
    by (simp only: days_before_year_def Let_def)
  show ?thesis
    unfolding d1 d0 is_leap_def
    by (rule leap_count[OF div_step div_step div_step a b]) simp_all
qed

lemma days_before_year_le:
  fixes a b c y :: int
  shows "a \<le> 2499 \<Longrightarrow> c \<le> 24 \<Longrightarrow> 0 \<le> b \<Longrightarrow> y \<le> 9998
         \<Longrightarrow> (y - 1) * 365 + a - b + c \<le> 3651428"
  by simp

lemma days_before_year_bound: "1 \<le> y \<Longrightarrow> y \<le> 9998 \<Longrightarrow> days_before_year y \<le> 3651428"
proof -
  assume y: "1 \<le> y" "y \<le> 9998"
  have "(y - 1) div 4 \<le> 9997 div 4" using y by (intro zdiv_mono1) simp_all
  then have a: "(y - 1) div 4 \<le> 2499" by simp
  have "(y - 1) div 400 \<le> 9997 div 400" using y by (intro zdiv_mono1) simp_all
  then have c: "(y - 1) div 400 \<le> 24" by simp
  have b: "0 \<le> (y - 1) div 100" using y by (simp add: pos_imp_zdiv_nonneg_iff)
  show ?thesis
    unfolding days_before_year_def Let_def
    by (rule days_before_year_le[OF a c b y(2)])
qed

lemma month_cases:
  assumes "1 \<le> m" "m \<le> (12::int)"
  obtains "m = 1" | "m = 2" | "m = 3" | "m = 4" | "m = 5" | "m = 6"
    | "m = 7" | "m = 8" | "m = 9" | "m = 10" | "m = 11" | "m = 12"
proof -
  have "m = 1 \<or> m = 2 \<or> m = 3 \<or> m = 4 \<or> m = 5 \<or> m = 6
        \<or> m = 7 \<or> m = 8 \<or> m = 9 \<or> m = 10 \<or> m = 11 \<or> m = 12"
    using assms by arith
  then show thesis using that by blast
qed

lemma days_in_month_range: "28 \<le> days_in_month y m \<and> days_in_month y m \<le> 31"
  by (simp add: days_in_month_def)

lemma days_before_month_Suc:
  assumes "1 \<le> m" "m < 12"
  shows "days_before_month y (m + 1) = days_before_month y m + days_in_month y m"
proof -
  from assms have "1 \<le> m" "m \<le> 12" by simp_all
  then show ?thesis using assms(2)
    by (cases m rule: month_cases) (simp_all add: days_before_month_def days_in_month_def)
qed

lemma days_before_month_12:
  "days_before_month y 12 + 31 = (if is_leap y then 366 else 365)"
  by (simp add: days_before_month_def)

lemma days_before_month_1: "days_before_month y 1 = 0"
  by (simp add: days_before_month_def)

lemma days_before_month_le:
  assumes "1 \<le> m" "m \<le> 12"
  shows "0 \<le> days_before_month y m \<and> days_before_month y m + days_in_month y m \<le> 366"
  using assms
  by (cases m rule: month_cases) (simp_all add: days_before_month_def days_in_month_def)

lemma toordinal_next_day:
  assumes "1 \<le> month t" "month t \<le> 12" "day t \<le> days_in_month (year t) (month t)"
  shows "toordinal (next_day t) = toordinal t + 1"
proof (cases "day t < days_in_month (year t) (month t)")
  case True
  then show ?thesis by (simp add: next_day_def toordinal_def)
next
  case False
  with assms(3) have d: "day t = days_in_month (year t) (month t)" by simp
  show ?thesis
  proof (cases "month t < 12")
    case True
    then show ?thesis using d assms(1)
      by (simp add: next_day_def toordinal_def days_before_month_Suc)
  next
    case False
    with assms(2) have m: "month t = 12" by simp
    have "days_in_month (year t) 12 = 31" by (simp add: days_in_month_def)
    then show ?thesis using d m days_before_month_12[of "year t"]
      by (simp add: next_day_def toordinal_def days_before_year_Suc days_before_month_1)
  qed
qed

lemma toordinal_bound:
  assumes "valid_datetime t" "year t < 9999"
  shows "toordinal t + 32 \<le> 3652059"
proof -
  from assms(1) have v: "1 \<le> year t" "1 \<le> month t" "month t \<le> 12"
    "day t \<le> days_in_month (year t) (month t)"
    by (simp_all add: valid_datetime_def)
  have "days_before_year (year t) \<le> 3651428"
    using v(1) assms(2) by (intro days_before_year_bound) simp_all
  moreover have "days_before_month (year t) (month t) + days_in_month (year t) (month t) \<le> 366"
    using days_before_month_le[OF v(2,3)] by simp
  ultimately show ?thesis using v(4) by (simp add: toordinal_def)
qed

lemma funpow_next_day_within:
  "day t + int n \<le> days_in_month (year t) (month t) \<Longrightarrow>
   (next_day ^^ n) t = t\<lparr>day := day t + int n\<rparr>"
proof (induction n)
  case 0
  show ?case by simp
next
  case (Suc n)
  then have "(next_day ^^ n) t = t\<lparr>day := day t + int n\<rparr>" by simp
  moreover have "next_day (t\<lparr>day := day t + int n\<rparr>) = t\<lparr>day := day t + int n + 1\<rparr>"
    using Suc.prems by (simp add: next_day_def)
  ultimately show ?case by (simp add: add.assoc)
qed

lemma next_day_last_of_month:
  "day t = days_in_month (year t) (month t) \<Longrightarrow> next_day t = first_of_next_month t"
  by (simp add: next_day_def first_of_next_month_def)

lemma funpow_32_from_first:
  assumes "day t = 1"
  shows "(next_day ^^ 32) t
         = (first_of_next_month t)\<lparr>day := 33 - days_in_month (year t) (month t)\<rparr>"
proof -
  define dim where "dim = days_in_month (year t) (month t)"
  have r: "28 \<le> dim" "dim \<le> 31" using days_in_month_range by (simp_all add: dim_def)
  define a where "a = nat (dim - 1)"
  define b where "b = nat (32 - dim)"
  have ab: "32 = b + Suc a" using r by (simp add: a_def b_def)
  have 1: "(next_day ^^ a) t = t\<lparr>day := dim\<rparr>"
    using funpow_next_day_within[of t a] assms r by (simp add: a_def dim_def)
  have 2: "next_day (t\<lparr>day := dim\<rparr>) = first_of_next_month t"
    using next_day_last_of_month[of "t\<lparr>day := dim\<rparr>"]
    by (simp add: dim_def first_of_next_month_def)
  let ?f = "first_of_next_month t"
  have f: "day ?f = 1" by (simp add: first_of_next_month_def)
  have "day ?f + int b \<le> days_in_month (year ?f) (month ?f)"
    using r days_in_month_range[of "year ?f" "month ?f"] f by (simp add: b_def)
  then have 3: "(next_day ^^ b) ?f = ?f\<lparr>day := day ?f + int b\<rparr>"
    by (rule funpow_next_day_within)
  have "(next_day ^^ 32) t = (next_day ^^ b) (next_day ((next_day ^^ a) t))"
    by (subst ab) (simp only: funpow_add funpow.simps o_apply)
  also have "\<dots> = ?f\<lparr>day := day ?f + int b\<rparr>" by (simp only: 1 2 3)
  also have "day ?f + int b = 33 - dim" using r f by (simp add: b_def)
  finally show ?thesis by (simp add: dim_def)
qed


section \<open>Strings and values used in the examples\<close>

lemma float_literal_Nil: "float_literal [] = None"
  by code_simp

lemma float_literal_unknown: "float_literal ''unknown'' = None"
  by code_simp

lemma float_literal_unavailable: "float_literal ''unavailable'' = None"
  by code_simp

lemma float_of_str_numeric:
  assumes "float_of_str s = Inr x"
  shows "s \<noteq> [] \<and> s \<notin> set [''unknown'', ''unavailable'']"
  using assms
  by (auto simp: float_of_str_def float_literal_Nil float_literal_unknown
      float_literal_unavailable)

lemma float_literal_025: "float_literal ''0.25'' = Some (Number False 25 (- 2))"
  by code_simp

lemma float_literal_2000: "float_literal ''2000'' = Some (Number False 2000 0)"
  by code_simp

lemma float_literal_0: "float_literal ''0'' = Some (Number False 0 0)"
  by code_simp

lemma rnd64_quarter: "rnd64 (1 / 4) = Finite (1 / 4)"
  by (rule rnd64_exact[where e = "- 2" and n = "2 ^ 52"]) simp_all

lemma rnd64_half: "rnd64 (1 / 2) = Finite (1 / 2)"
  by (rule rnd64_exact[where e = "- 1" and n = "2 ^ 52"]) simp_all

lemma rnd64_2: "rnd64 2 = Finite 2"
  by (rule rnd64_exact[where e = 1 and n = "2 ^ 52"]) simp_all

lemma rnd64_2000: "rnd64 2000 = Finite 2000"
  by (rule rnd64_exact[where e = 10 and n = "2000 * 2 ^ 42"]) simp_all

lemma float_of_str_025: "float_of_str ''0.25'' = Inr (Finite (1 / 4))"
  by (simp add: float_of_str_def float_literal_025 signed_def rnd64_quarter)

lemma float_of_str_2000: "float_of_str ''2000'' = Inr (Finite 2000)"
  by (simp add: float_of_str_def float_literal_2000 signed_def rnd64_2000)

lemma float_of_str_0: "float_of_str ''0'' = Inr (Finite 0)"
  by (simp add: float_of_str_def float_literal_0 signed_def rnd64_def)

lemma round_half_even_50: "round_half_even 50 = 50"
  using round_half_even_of_int[of 50] by simp

section \<open>RealTimeCostSensor: the rate\<close>

text \<open>
  Claim C2. When the event carries a state other than \<^verbatim>\<open>unknown\<close> and \<^verbatim>\<open>unavailable\<close>
  and the host holds a numeric state for the price sensor and for the power sensor
  (\<^verbatim>\<open>float\<close> accepts both), \<^verbatim>\<open>handle_state_change\<close> raises nothing and leaves the sensor
  with the rate \<^verbatim>\<open>round(price * (power / 1000), 2)\<close>, computed in float arithmetic.
\<close>

theorem C2_rate_formula:
  assumes "new_state ev = Some s" and "s \<notin> set [''unknown'', ''unavailable'']"
    and "states (electricity_price_sensor_id self) = Some electricity_price"
    and "states (power_sensor_id self) = Some power_usage"
    and "float_of_str electricity_price = Inr price"
    and "float_of_str power_usage = Inr watts"
  shows "\<exists>kw. float_truediv_int watts 1000 = Inr kw
           \<and> raised (handle_state_change self states ev) = None
           \<and> rtc_state (after (handle_state_change self states ev))
               = decimal_of_float (float_round (float_mul price kw) 2)"
proof -
  obtain kw where kw: "float_truediv_int watts 1000 = Inr kw"
    by (simp add: float_truediv_int_def)
  let ?c = "float_round (float_mul price kw) 2"
  note n1 = float_of_str_numeric[OF assms(5)] and n2 = float_of_str_numeric[OF assms(6)]
  have gate: "\<not> float_ne_decimal ?c (rtc_state self) \<Longrightarrow> rtc_state self = decimal_of_float ?c"
    by (auto simp: float_ne_decimal_def)
  have "raised (handle_state_change self states ev) = None
        \<and> rtc_state (after (handle_state_change self states ev)) = decimal_of_float ?c"
    using assms n1 n2 kw gate
    by (simp add: handle_state_change_def and_then_def)
  with kw show ?thesis by blast
qed

theorem C2_rate_formula_witness:
  "float_of_str ''0.25'' = Inr (Finite (1 / 4))
   \<and> float_of_str ''2000'' = Inr (Finite 2000)
   \<and> raised (handle_state_change (RealTimeCostSensor_init ''sensor.price'' ''sensor.power'')
        [''sensor.price'' \<mapsto> ''0.25'', ''sensor.power'' \<mapsto> ''2000'']
        \<lparr>entity_id = ''sensor.power'', new_state = Some ''2000''\<rparr>) = None
   \<and> rtc_state (after (handle_state_change
        (RealTimeCostSensor_init ''sensor.price'' ''sensor.power'')
        [''sensor.price'' \<mapsto> ''0.25'', ''sensor.power'' \<mapsto> ''2000'']
        \<lparr>entity_id = ''sensor.power'', new_state = Some ''2000''\<rparr>)) = DFin (1 / 2)"
proof -
  let ?self = "RealTimeCostSensor_init ''sensor.price'' ''sensor.power''"
  let ?states = "[''sensor.price'' \<mapsto> ''0.25'', ''sensor.power'' \<mapsto> ''2000'']"
  let ?ev = "\<lparr>entity_id = ''sensor.power'', new_state = Some ''2000''\<rparr>"
  have kw: "float_truediv_int (Finite 2000) 1000 = Inr (Finite 2)"
    by (simp add: float_truediv_int_def rnd64_2)
  have c: "float_round (float_mul (Finite (1 / 4)) (Finite 2)) 2 = Finite (1 / 2)"
    by (simp add: float_round_def rnd64_half round_half_even_50)
  have "\<exists>kw. float_truediv_int (Finite 2000) 1000 = Inr kw
           \<and> raised (handle_state_change ?self ?states ?ev) = None
           \<and> rtc_state (after (handle_state_change ?self ?states ?ev))
               = decimal_of_float (float_round (float_mul (Finite (1 / 4)) kw) 2)"
    by (rule C2_rate_formula[where s = "''2000''" and electricity_price = "''0.25''"
          and power_usage = "''2000''"])
       (simp_all add: RealTimeCostSensor_init_def float_of_str_025 float_of_str_2000)
  then show ?thesis
    using kw c by (auto simp: float_of_str_025 float_of_str_2000 decimal_of_float_def)
qed

text \<open>
  Claim C3. The claim asks that an event whose source value is missing, \<^verbatim>\<open>unknown\<close>,
  \<^verbatim>\<open>unavailable\<close> or not numeric changes nothing and raises nothing. For an event whose
  \<^verbatim>\<open>new_state\<close> is \<^verbatim>\<open>None\<close> (the watched entity was removed) the test at line 94 succeeds,
  and the log message of line 96 reads \<^verbatim>\<open>new_state.state\<close>: the handler leaves the sensor
  unchanged but raises \<^verbatim>\<open>AttributeError\<close>.
\<close>

theorem C3_missing_state_raises:
  "handle_state_change (RealTimeCostSensor_init ''sensor.price'' ''sensor.power'')
     [''sensor.price'' \<mapsto> ''0.25'', ''sensor.power'' \<mapsto> ''2000'']
     \<lparr>entity_id = ''sensor.power'', new_state = None\<rparr>
   = \<lparr>after = RealTimeCostSensor_init ''sensor.price'' ''sensor.power'',
      calls = [], raised = Some AttributeError\<rparr>"
  by (simp add: handle_state_change_def)


section \<open>UtilityMeterSensor: restoring the total\<close>

lemma decimal_literal_abc: "decimal_literal ''abc'' = None"
  by code_simp

lemma decimal_literal_1234: "decimal_literal ''12.34'' = Some (Number False 1234 (- 2))"
  by code_simp

lemma decimal_literal_200: "decimal_literal ''2.00'' = Some (Number False 200 (- 2))"
  by code_simp

lemma decimal_literal_minus_200: "decimal_literal ''-2.00'' = Some (Number True 200 (- 2))"
  by code_simp

lemma decimal_of_str_abc: "decimal_of_str ''abc'' = Inl InvalidOperation"
  by (simp add: decimal_of_str_def decimal_literal_abc)

lemma decimal_of_str_1234: "decimal_of_str ''12.34'' = Inr (DFin (1234 / 100))"
  by (simp add: decimal_of_str_def decimal_literal_1234 signed_def)

lemma decimal_of_str_200: "decimal_of_str ''2.00'' = Inr (DFin 2)"
  by (simp add: decimal_of_str_def decimal_literal_200 signed_def)

lemma decimal_of_str_minus_200: "decimal_of_str ''-2.00'' = Inr (DFin (- 2))"
  by (simp add: decimal_of_str_def decimal_literal_minus_200 signed_def)

lemma calculate_next_reset_time_example:
  "calculate_next_reset_time ''daily'' (mk_datetime 2024 1 1 0 0 0 50)
   = Inr (mk_datetime 2024 1 2 0 0 0 0)"
  by code_simp

lemma schedule_next_reset_frame:
  "last_update (after (schedule_next_reset self t)) = last_update self
   \<and> ums_state (after (schedule_next_reset self t)) = ums_state self
   \<and> interval (after (schedule_next_reset self t)) = interval self"
  by (simp add: schedule_next_reset_def split: sum.splits)

lemma restore_state_frame:
  "restore_state self persisted = Inr restored \<Longrightarrow>
   restored = self\<lparr>ums_state := ums_state restored\<rparr>"
  by (auto simp: restore_state_def split: option.splits if_splits sum.splits)

lemma async_added_to_hass_frame:
  "last_update (after (async_added_to_hass self persisted t)) = last_update self
   \<and> interval (after (async_added_to_hass self persisted t)) = interval self"
proof (cases "restore_state self persisted")
  case (Inl e)
  then show ?thesis by (simp add: async_added_to_hass_def)
next
  case (Inr restored)
  from restore_state_frame[OF this]
  have "last_update restored = last_update self" "interval restored = interval self"
    by (metis utility_meter_sensor.select_convs(3) utility_meter_sensor.surjective
        utility_meter_sensor.update_convs(2),
        metis utility_meter_sensor.select_convs(1) utility_meter_sensor.surjective
        utility_meter_sensor.update_convs(2))
  with Inr show ?thesis
    by (simp add: async_added_to_hass_def Let_def schedule_next_reset_frame)
qed

lemma update_success:
  assumes "new_state ev = Some s" and "s \<notin> set [''unknown'', ''unavailable'']"
    and "raised (handle_real_time_cost_update self ev t1 t2) = None"
  shows "\<exists>cost hours inc new_total.
           decimal_of_str s = Inr cost
           \<and> hours_passed t1 (last_update self) = Inr hours
           \<and> cost_increment cost hours = Inr inc
           \<and> dec_add (ums_state self) inc = Inr new_total
           \<and> after (handle_real_time_cost_update self ev t1 t2)
               = self\<lparr>ums_state := new_total, last_update := t2\<rparr>
           \<and> Write_ha_state new_total \<in> set (calls (handle_real_time_cost_update self ev t1 t2))"
  using assms
  by (auto simp: handle_real_time_cost_update_def and_then_def split: sum.splits)

text \<open>
  Claim C5. The claim asks that an unparsable persisted value such as \<^verbatim>\<open>"abc"\<close> gives
  the total 0.00, is logged, raises nothing, and is followed by \<^verbatim>\<open>schedule_next_reset()\<close>.
  \<^verbatim>\<open>Decimal("abc")\<close> raises \<^verbatim>\<open>InvalidOperation\<close>; the clause \<^verbatim>\<open>except InvalidOperation:\<close> at
  line 183 names a class the module never imports, so \<^verbatim>\<open>NameError\<close> leaves
  \<^verbatim>\<open>async_added_to_hass\<close>: the total keeps its initial 0.00, but nothing is logged and no
  reset is scheduled.
\<close>

theorem C5_unparsable_restore_raises:
  "async_added_to_hass (UtilityMeterSensor_init ''daily'' (mk_datetime 2024 1 1 0 0 0 0))
     (Some ''abc'') (mk_datetime 2024 1 1 0 0 0 50)
   = \<lparr>after = UtilityMeterSensor_init ''daily'' (mk_datetime 2024 1 1 0 0 0 0),
      calls = [], raised = Some NameError\<rparr>"
  by (simp add: async_added_to_hass_def restore_state_def decimal_of_str_abc
      except_InvalidOperation_def)

text \<open>The other two cases of claim C5 hold: a persisted \<^verbatim>\<open>"12.34"\<close> gives the total 12.34,
  no persisted state leaves 0.00, and in both the next reset is scheduled.\<close>

lemma restore_parsable:
  "async_added_to_hass (UtilityMeterSensor_init ''daily'' (mk_datetime 2024 1 1 0 0 0 0))
     (Some ''12.34'') (mk_datetime 2024 1 1 0 0 0 50)
   = \<lparr>after = \<lparr>interval = ''daily'', ums_state = DFin (1234 / 100),
                last_update = mk_datetime 2024 1 1 0 0 0 0,
                reset_timer = Some (mk_datetime 2024 1 2 0 0 0 0)\<rparr>,
      calls = [Log DEBUG ''Calculated next reset time'',
               Log DEBUG ''Scheduling next reset'',
               Track_point_in_time (mk_datetime 2024 1 2 0 0 0 0),
               Log DEBUG ''Next reset scheduled successfully.'',
               Log DEBUG ''Registering state change event'',
               Track_state_change_event],
      raised = None\<rparr>"
  by (simp add: async_added_to_hass_def restore_state_def decimal_of_str_1234
      schedule_next_reset_def UtilityMeterSensor_init_def calculate_next_reset_time_example)

lemma restore_absent:
  "async_added_to_hass (UtilityMeterSensor_init ''daily'' (mk_datetime 2024 1 1 0 0 0 0))
     None (mk_datetime 2024 1 1 0 0 0 50)
   = \<lparr>after = \<lparr>interval = ''daily'', ums_state = DFin 0,
                last_update = mk_datetime 2024 1 1 0 0 0 0,
                reset_timer = Some (mk_datetime 2024 1 2 0 0 0 0)\<rparr>,
      calls = [Log DEBUG ''Calculated next reset time'',
               Log DEBUG ''Scheduling next reset'',
               Track_point_in_time (mk_datetime 2024 1 2 0 0 0 0),
               Log DEBUG ''Next reset scheduled successfully.'',
               Log DEBUG ''Registering state change event'',
               Track_state_change_event],
      raised = None\<rparr>"
  by (simp add: async_added_to_hass_def restore_state_def
      schedule_next_reset_def UtilityMeterSensor_init_def calculate_next_reset_time_example)

text \<open>
  Claim C10. Restoring changes only the total: \<^verbatim>\<open>_last_update\<close> after
  \<^verbatim>\<open>async_added_to_hass\<close> is still the clock reading \<open>t0\<close> that \<^verbatim>\<open>__init__\<close> took, whatever
  was persisted, and the first rate update that succeeds after the restore adds the rate
  times the hours from \<open>t0\<close> to its own clock reading.
\<close>

theorem C10_restore_keeps_construction_time:
  "(restore_state self persisted = Inr restored
      \<longrightarrow> restored = self\<lparr>ums_state := ums_state restored\<rparr>)
   \<and> last_update (after (async_added_to_hass (UtilityMeterSensor_init iv t0) persisted t)) = t0
   \<and> (new_state ev = Some s \<and> s \<notin> set [''unknown'', ''unavailable'']
       \<and> raised (handle_real_time_cost_update
            (after (async_added_to_hass (UtilityMeterSensor_init iv t0) persisted t))
            ev t1 t2) = None
      \<longrightarrow> (\<exists>cost hours inc.
             decimal_of_str s = Inr cost
             \<and> hours_passed t1 t0 = Inr hours
             \<and> cost_increment cost hours = Inr inc
             \<and> dec_add (ums_state (after (async_added_to_hass
                   (UtilityMeterSensor_init iv t0) persisted t))) inc
                 = Inr (ums_state (after (handle_real_time_cost_update
                     (after (async_added_to_hass (UtilityMeterSensor_init iv t0) persisted t))
                     ev t1 t2)))))"
proof -
  let ?m = "after (async_added_to_hass (UtilityMeterSensor_init iv t0) persisted t)"
  have lu: "last_update ?m = t0"
    using async_added_to_hass_frame[of "UtilityMeterSensor_init iv t0" persisted t]
    by (simp add: UtilityMeterSensor_init_def)
  have "\<exists>cost hours inc.
          decimal_of_str s = Inr cost \<and> hours_passed t1 t0 = Inr hours
          \<and> cost_increment cost hours = Inr inc
          \<and> dec_add (ums_state ?m) inc
              = Inr (ums_state (after (handle_real_time_cost_update ?m ev t1 t2)))"
    if "new_state ev = Some s" "s \<notin> set [''unknown'', ''unavailable'']"
      "raised (handle_real_time_cost_update ?m ev t1 t2) = None"
    using update_success[OF that] lu by auto
  then show ?thesis using lu restore_state_frame by blast
qed

text \<open>
  Claim C6. The claim asks that a rate state that does not parse is caught and logged
  and leaves the sensor unchanged. For the state \<^verbatim>\<open>"abc"\<close>, \<^verbatim>\<open>Decimal\<close> raises
  \<^verbatim>\<open>InvalidOperation\<close> before anything is changed; the clause
  \<^verbatim>\<open>except (InvalidOperation, TypeError)\<close> at line 290 names a class the module never
  imports, so the sensor is unchanged but \<^verbatim>\<open>NameError\<close> leaves the callback and nothing is
  logged.
\<close>

theorem C6_unparsable_rate_raises:
  "handle_real_time_cost_update
     (UtilityMeterSensor_init ''daily'' (mk_datetime 2024 1 1 0 0 0 0))
     \<lparr>entity_id = ''sensor.real_time_energy_cost'', new_state = Some ''abc''\<rparr>
     (mk_datetime 2024 1 1 0 30 0 0) (mk_datetime 2024 1 1 0 30 0 50)
   = \<lparr>after = UtilityMeterSensor_init ''daily'' (mk_datetime 2024 1 1 0 0 0 0),
      calls = [], raised = Some NameError\<rparr>"
  by (simp add: handle_real_time_cost_update_def decimal_of_str_abc
      except_InvalidOperation_def)


section \<open>UtilityMeterSensor: integrating the rate\<close>

lemma ctx_fix_minus_1: "ctx_fix (- 1) = Inr (DFin (- 1))"
  by (rule ctx_fix_exact[where e = 0 and n = "10 ^ 27"]) simp_all

lemma ctx_fix_1334: "ctx_fix (667 / 50) = Inr (DFin (667 / 50))"
  by (rule ctx_fix_exact[where e = 1 and n = "1334 * 10 ^ 24"]) simp_all

lemma round_half_even_100: "round_half_even 100 = 100"
  using round_half_even_of_int[of 100] by simp

lemma round_half_even_minus_100: "round_half_even (- 100) = - 100"
  using round_half_even_of_int[of "- 100"] by simp

lemma to_microseconds_example:
  "to_microseconds (mk_datetime 2024 1 1 0 30 0 0)
   - to_microseconds (mk_datetime 2024 1 1 0 0 0 0) = 1800000000"
  by code_simp

lemma hours_passed_1800:
  assumes "to_microseconds t - to_microseconds since = 1800000000"
  shows "hours_passed t since = Inr (DFin (1 / 2))"
  by (simp add: hours_passed_def total_seconds_between_def assms rnd64_1800
      decimal_of_float_def dec_truediv_def ctx_fix_half)

lemma cost_increment_2_half: "cost_increment (DFin 2) (DFin (1 / 2)) = Inr (DFin 1)"
  by (simp add: cost_increment_def dec_mul_def and_then_def ctx_fix_1
      dec_quantize_cents_def round_half_even_100)

lemma cost_increment_minus_2_half: "cost_increment (DFin (- 2)) (DFin (1 / 2)) = Inr (DFin (- 1))"
  by (simp add: cost_increment_def dec_mul_def and_then_def ctx_fix_minus_1
      dec_quantize_cents_def round_half_even_minus_100)

lemma dec_add_0_1: "dec_add (DFin 0) (DFin 1) = Inr (DFin 1)"
  by (simp add: dec_add_def ctx_fix_1)

lemma dec_add_0_minus_1: "dec_add (DFin 0) (DFin (- 1)) = Inr (DFin (- 1))"
  by (simp add: dec_add_def ctx_fix_minus_1)

lemma dec_add_1234_1: "dec_add (DFin (617 / 50)) (DFin 1) = Inr (DFin (667 / 50))"
  using ctx_fix_1334 by (simp add: dec_add_def)

lemma update_example:
  "handle_real_time_cost_update
     (UtilityMeterSensor_init ''daily'' (mk_datetime 2024 1 1 0 0 0 0))
     \<lparr>entity_id = ''sensor.real_time_energy_cost'', new_state = Some ''2.00''\<rparr>
     (mk_datetime 2024 1 1 0 30 0 0) (mk_datetime 2024 1 1 0 30 0 50)
   = \<lparr>after = \<lparr>interval = ''daily'', ums_state = DFin 1,
                last_update = mk_datetime 2024 1 1 0 30 0 50, reset_timer = None\<rparr>,
      calls = [Log DEBUG ''Current cost retrieved from state'',
               Log DEBUG ''Time difference calculated'',
               Write_ha_state (DFin 1),
               Log DEBUG ''Updated state''],
      raised = None\<rparr>"
  by (simp add: handle_real_time_cost_update_def UtilityMeterSensor_init_def
      decimal_of_str_200 hours_passed_1800[OF to_microseconds_example]
      cost_increment_2_half dec_add_0_1 and_then_def)

lemma update_example_negative:
  "handle_real_time_cost_update
     (UtilityMeterSensor_init ''daily'' (mk_datetime 2024 1 1 0 0 0 0))
     \<lparr>entity_id = ''sensor.real_time_energy_cost'', new_state = Some ''-2.00''\<rparr>
     (mk_datetime 2024 1 1 0 30 0 0) (mk_datetime 2024 1 1 0 30 0 50)
   = \<lparr>after = \<lparr>interval = ''daily'', ums_state = DFin (- 1),
                last_update = mk_datetime 2024 1 1 0 30 0 50, reset_timer = None\<rparr>,
      calls = [Log DEBUG ''Current cost retrieved from state'',
               Log DEBUG ''Time difference calculated'',
               Write_ha_state (DFin (- 1)),
               Log DEBUG ''Updated state''],
      raised = None\<rparr>"
  by (simp add: handle_real_time_cost_update_def UtilityMeterSensor_init_def
      decimal_of_str_minus_200 hours_passed_1800[OF to_microseconds_example]
      cost_increment_minus_2_half dec_add_0_minus_1 and_then_def)

text \<open>
  Claim C1, as stated, fails: the handler reads the clock twice. The hours are counted
  up to the reading of line 276 (here 00:30:00.000000, 1800 seconds after
  \<^verbatim>\<open>_last_update\<close>, so that the rate 2.00 adds 1.00), and \<^verbatim>\<open>_last_update\<close> is then set to the
  reading of line 285 (here 00:30:00.000050), not to the time the hours were counted to.
\<close>

theorem C1_counterexample:
  "ums_state (after (handle_real_time_cost_update
       (UtilityMeterSensor_init ''daily'' (mk_datetime 2024 1 1 0 0 0 0))
       \<lparr>entity_id = ''sensor.real_time_energy_cost'', new_state = Some ''2.00''\<rparr>
       (mk_datetime 2024 1 1 0 30 0 0) (mk_datetime 2024 1 1 0 30 0 50))) = DFin 1
   \<and> last_update (after (handle_real_time_cost_update
       (UtilityMeterSensor_init ''daily'' (mk_datetime 2024 1 1 0 0 0 0))
       \<lparr>entity_id = ''sensor.real_time_energy_cost'', new_state = Some ''2.00''\<rparr>
       (mk_datetime 2024 1 1 0 30 0 0) (mk_datetime 2024 1 1 0 30 0 50)))
     \<noteq> mk_datetime 2024 1 1 0 30 0 0"
  unfolding update_example by (simp add: mk_datetime_def)

text \<open>
  Claim C1, amended. A rate update that succeeds (the state is present, is neither
  \<^verbatim>\<open>unknown\<close> nor \<^verbatim>\<open>unavailable\<close>, and nothing is raised) adds to the total the rate times
  the hours from \<^verbatim>\<open>_last_update\<close> to the first clock reading \<open>t1\<close>, quantized to two
  places in Decimal arithmetic, publishes the new total, and sets \<^verbatim>\<open>_last_update\<close> to the
  second clock reading \<open>t2\<close>. A rate of 2.00 over exactly 1800 seconds adds exactly 1.00.
\<close>

theorem C1_update_adds_rate_times_hours:
  assumes "new_state ev = Some s" and "s \<notin> set [''unknown'', ''unavailable'']"
    and "raised (handle_real_time_cost_update self ev t1 t2) = None"
  shows "\<exists>cost hours inc new_total.
           decimal_of_str s = Inr cost
           \<and> hours_passed t1 (last_update self) = Inr hours
           \<and> cost_increment cost hours = Inr inc
           \<and> dec_add (ums_state self) inc = Inr new_total
           \<and> ums_state (after (handle_real_time_cost_update self ev t1 t2)) = new_total
           \<and> last_update (after (handle_real_time_cost_update self ev t1 t2)) = t2
           \<and> Write_ha_state new_total \<in> set (calls (handle_real_time_cost_update self ev t1 t2))
           \<and> (cost = DFin 2
                \<and> to_microseconds t1 - to_microseconds (last_update self) = 1800000000
               \<longrightarrow> inc = DFin 1)"
proof -
  from update_success[OF assms]
  obtain cost hours inc new_total where u:
    "decimal_of_str s = Inr cost"
    "hours_passed t1 (last_update self) = Inr hours"
    "cost_increment cost hours = Inr inc"
    "dec_add (ums_state self) inc = Inr new_total"
    "after (handle_real_time_cost_update self ev t1 t2)
       = self\<lparr>ums_state := new_total, last_update := t2\<rparr>"
    "Write_ha_state new_total \<in> set (calls (handle_real_time_cost_update self ev t1 t2))"
    by blast
  have "inc = DFin 1"
    if "cost = DFin 2" "to_microseconds t1 - to_microseconds (last_update self) = 1800000000"
    using u(2,3) that hours_passed_1800[OF that(2)] cost_increment_2_half by simp
  with u show ?thesis by auto
qed

theorem C1_update_adds_rate_times_hours_witness:
  "new_state \<lparr>entity_id = ''sensor.real_time_energy_cost'', new_state = Some ''2.00''\<rparr>
     = Some ''2.00''
   \<and> decimal_of_str ''2.00'' = Inr (DFin 2)
   \<and> to_microseconds (mk_datetime 2024 1 1 0 30 0 0)
       - to_microseconds (mk_datetime 2024 1 1 0 0 0 0) = 1800000000
   \<and> raised (handle_real_time_cost_update
       (UtilityMeterSensor_init ''daily'' (mk_datetime 2024 1 1 0 0 0 0))
       \<lparr>entity_id = ''sensor.real_time_energy_cost'', new_state = Some ''2.00''\<rparr>
       (mk_datetime 2024 1 1 0 30 0 0) (mk_datetime 2024 1 1 0 30 0 50)) = None
   \<and> ums_state (after (handle_real_time_cost_update
       (UtilityMeterSensor_init ''daily'' (mk_datetime 2024 1 1 0 0 0 0))
       \<lparr>entity_id = ''sensor.real_time_energy_cost'', new_state = Some ''2.00''\<rparr>
       (mk_datetime 2024 1 1 0 30 0 0) (mk_datetime 2024 1 1 0 30 0 50))) = DFin 1
   \<and> last_update (after (handle_real_time_cost_update
       (UtilityMeterSensor_init ''daily'' (mk_datetime 2024 1 1 0 0 0 0))
       \<lparr>entity_id = ''sensor.real_time_energy_cost'', new_state = Some ''2.00''\<rparr>
       (mk_datetime 2024 1 1 0 30 0 0) (mk_datetime 2024 1 1 0 30 0 50)))
     = mk_datetime 2024 1 1 0 30 0 50"
proof -
  let ?self = "UtilityMeterSensor_init ''daily'' (mk_datetime 2024 1 1 0 0 0 0)"
  let ?ev = "\<lparr>entity_id = ''sensor.real_time_energy_cost'', new_state = Some ''2.00''\<rparr>"
  let ?r = "handle_real_time_cost_update ?self ?ev
              (mk_datetime 2024 1 1 0 30 0 0) (mk_datetime 2024 1 1 0 30 0 50)"
  have r: "raised ?r = None" by (simp add: update_example)
  have lu: "last_update ?self = mk_datetime 2024 1 1 0 0 0 0"
    and st: "ums_state ?self = DFin 0"
    by (simp_all add: UtilityMeterSensor_init_def)
  have "\<exists>cost hours inc new_total.
           decimal_of_str ''2.00'' = Inr cost
           \<and> hours_passed (mk_datetime 2024 1 1 0 30 0 0) (last_update ?self) = Inr hours
           \<and> cost_increment cost hours = Inr inc
           \<and> dec_add (ums_state ?self) inc = Inr new_total
           \<and> ums_state (after ?r) = new_total
           \<and> last_update (after ?r) = mk_datetime 2024 1 1 0 30 0 50
           \<and> Write_ha_state new_total \<in> set (calls ?r)
           \<and> (cost = DFin 2
                \<and> to_microseconds (mk_datetime 2024 1 1 0 30 0 0)
                    - to_microseconds (last_update ?self) = 1800000000
               \<longrightarrow> inc = DFin 1)"
    by (rule C1_update_adds_rate_times_hours[where s = "''2.00''"]) (simp_all add: r)
  then obtain inc new_total where
    "dec_add (ums_state ?self) inc = Inr new_total" "ums_state (after ?r) = new_total"
    "last_update (after ?r) = mk_datetime 2024 1 1 0 30 0 50" "inc = DFin 1"
    using to_microseconds_example by (auto simp: decimal_of_str_200 lu)
  then show ?thesis
    using r to_microseconds_example by (simp add: decimal_of_str_200 st dec_add_0_1)
qed

theorem C10_restore_keeps_construction_time_witness:
  "restore_state (UtilityMeterSensor_init ''daily'' (mk_datetime 2024 1 1 0 0 0 0))
       (Some ''12.34'')
     = Inr ((UtilityMeterSensor_init ''daily'' (mk_datetime 2024 1 1 0 0 0 0))
              \<lparr>ums_state := DFin (1234 / 100)\<rparr>)
   \<and> last_update (after (async_added_to_hass
         (UtilityMeterSensor_init ''daily'' (mk_datetime 2024 1 1 0 0 0 0))
         (Some ''12.34'') (mk_datetime 2024 1 1 0 0 0 50)))
       = mk_datetime 2024 1 1 0 0 0 0
   \<and> hours_passed (mk_datetime 2024 1 1 0 30 0 0) (mk_datetime 2024 1 1 0 0 0 0)
       = Inr (DFin (1 / 2))
   \<and> ums_state (after (handle_real_time_cost_update
         (after (async_added_to_hass
            (UtilityMeterSensor_init ''daily'' (mk_datetime 2024 1 1 0 0 0 0))
            (Some ''12.34'') (mk_datetime 2024 1 1 0 0 0 50)))
         \<lparr>entity_id = ''sensor.real_time_energy_cost'', new_state = Some ''2.00''\<rparr>
         (mk_datetime 2024 1 1 0 30 0 0) (mk_datetime 2024 1 1 0 30 0 50)))
       = DFin (1334 / 100)"
proof -
  let ?t0 = "mk_datetime 2024 1 1 0 0 0 0"
  let ?m = "after (async_added_to_hass (UtilityMeterSensor_init ''daily'' ?t0)
              (Some ''12.34'') (mk_datetime 2024 1 1 0 0 0 50))"
  let ?ev = "\<lparr>entity_id = ''sensor.real_time_energy_cost'', new_state = Some ''2.00''\<rparr>"
  let ?r = "handle_real_time_cost_update ?m ?ev
              (mk_datetime 2024 1 1 0 30 0 0) (mk_datetime 2024 1 1 0 30 0 50)"
  note h = hours_passed_1800[OF to_microseconds_example]
  have m: "?m = \<lparr>interval = ''daily'', ums_state = DFin (1234 / 100), last_update = ?t0,
                 reset_timer = Some (mk_datetime 2024 1 2 0 0 0 0)\<rparr>"
    by (simp add: restore_parsable)
  have r: "raised ?r = None"
    by (simp add: m handle_real_time_cost_update_def decimal_of_str_200 h
        cost_increment_2_half dec_add_1234_1 and_then_def)
  have rs: "restore_state (UtilityMeterSensor_init ''daily'' ?t0) (Some ''12.34'')
            = Inr ((UtilityMeterSensor_init ''daily'' ?t0)\<lparr>ums_state := DFin (1234 / 100)\<rparr>)"
    by (simp add: restore_state_def decimal_of_str_1234)
  note c = C10_restore_keeps_construction_time[where self = "UtilityMeterSensor_init ''daily'' ?t0"
      and persisted = "Some ''12.34''" and iv = "''daily''" and ?t0.0 = ?t0
      and restored = "(UtilityMeterSensor_init ''daily'' ?t0)\<lparr>ums_state := DFin (1234 / 100)\<rparr>"
      and t = "mk_datetime 2024 1 1 0 0 0 50" and ev = ?ev and s = "''2.00''"
      and ?t1.0 = "mk_datetime 2024 1 1 0 30 0 0" and ?t2.0 = "mk_datetime 2024 1 1 0 30 0 50"]
  from c have lu: "last_update ?m = ?t0" by (rule conjunct1[OF conjunct2])
  from c have "new_state ?ev = Some ''2.00'' \<and> ''2.00'' \<notin> set [''unknown'', ''unavailable'']
       \<and> raised ?r = None
      \<longrightarrow> (\<exists>cost hours inc.
             decimal_of_str ''2.00'' = Inr cost
             \<and> hours_passed (mk_datetime 2024 1 1 0 30 0 0) ?t0 = Inr hours
             \<and> cost_increment cost hours = Inr inc
             \<and> dec_add (ums_state ?m) inc = Inr (ums_state (after ?r)))"
    by (rule conjunct2[OF conjunct2])
  with r have "\<exists>cost hours inc.
             decimal_of_str ''2.00'' = Inr cost
             \<and> hours_passed (mk_datetime 2024 1 1 0 30 0 0) ?t0 = Inr hours
             \<and> cost_increment cost hours = Inr inc
             \<and> dec_add (ums_state ?m) inc = Inr (ums_state (after ?r))"
    by simp
  then obtain cost hours inc where o:
    "decimal_of_str ''2.00'' = Inr cost"
    "hours_passed (mk_datetime 2024 1 1 0 30 0 0) ?t0 = Inr hours"
    "cost_increment cost hours = Inr inc"
    "dec_add (ums_state ?m) inc = Inr (ums_state (after ?r))"
    by blast
  from o(1) have cost: "cost = DFin 2" by (simp add: decimal_of_str_200)
  from o(2) have hours: "hours = DFin (1 / 2)" by (simp add: h)
  from o(3) have inc: "inc = DFin 1" by (simp add: cost hours cost_increment_2_half)
  have "ums_state ?m = DFin (617 / 50)" by (simp add: m)
  with o(4) have "ums_state (after ?r) = DFin (1334 / 100)"
    by (simp add: inc dec_add_1234_1)
  with rs lu h show ?thesis by simp
qed

text \<open>
  Claim C7, as stated, fails: nothing keeps the total from falling below zero. A rate of
  -2.00 per hour (a negative price, say) over 1800 seconds takes a new sensor from 0.00
  to -1.00.
\<close>

theorem C7_counterexample:
  "ums_state (after (handle_real_time_cost_update
       (UtilityMeterSensor_init ''daily'' (mk_datetime 2024 1 1 0 0 0 0))
       \<lparr>entity_id = ''sensor.real_time_energy_cost'', new_state = Some ''-2.00''\<rparr>
       (mk_datetime 2024 1 1 0 30 0 0) (mk_datetime 2024 1 1 0 30 0 50))) = DFin (- 1)
   \<and> \<not> dec_nonneg (ums_state (after (handle_real_time_cost_update
       (UtilityMeterSensor_init ''daily'' (mk_datetime 2024 1 1 0 0 0 0))
       \<lparr>entity_id = ''sensor.real_time_energy_cost'', new_state = Some ''-2.00''\<rparr>
       (mk_datetime 2024 1 1 0 30 0 0) (mk_datetime 2024 1 1 0 30 0 50))))"
  by (simp add: update_example_negative dec_nonneg_def)


section \<open>RealTimeCostSensor: publishing only changes\<close>

lemma handle_state_change_numeric:
  assumes "new_state ev = Some s" and "s \<notin> set [''unknown'', ''unavailable'']"
    and "states (electricity_price_sensor_id self) = Some electricity_price"
    and "states (power_sensor_id self) = Some power_usage"
    and "float_of_str electricity_price = Inr price"
    and "float_of_str power_usage = Inr watts"
    and "float_truediv_int watts 1000 = Inr kw"
  shows "handle_state_change self states ev
         = (if float_ne_decimal (float_round (float_mul price kw) 2) (rtc_state self)
            then \<lparr>after = self\<lparr>rtc_state :=
                             decimal_of_float (float_round (float_mul price kw) 2)\<rparr>,
                  calls = [Write_ha_state (decimal_of_float (float_round (float_mul price kw) 2)),
                           Log DEBUG ''Updated Real Time Energy Cost''],
                  raised = None\<rparr>
            else \<lparr>after = self, calls = [], raised = None\<rparr>)"
  using assms float_of_str_numeric[OF assms(5)] float_of_str_numeric[OF assms(6)]
  by (simp add: handle_state_change_def and_then_def)

lemma float_ne_decimal_self: "float_ne_decimal c (decimal_of_float c) = (c = NaN)"
  by (cases c) (simp_all add: float_ne_decimal_def decimal_of_float_def dec_is_nan_def)

lemma rnd64_0: "rnd64 0 = Finite 0"
  by (simp add: rnd64_def)

lemma round_half_even_0: "round_half_even 0 = 0"
  using round_half_even_of_int[of 0] by simp

lemma handle_state_change_zero:
  assumes "rtc_state self = DFin 0"
    and "electricity_price_sensor_id self = ''sensor.price''"
    and "power_sensor_id self = ''sensor.power''"
  shows "handle_state_change self [''sensor.price'' \<mapsto> ''0'', ''sensor.power'' \<mapsto> ''0'']
           \<lparr>entity_id = ''sensor.power'', new_state = Some ''0''\<rparr>
         = \<lparr>after = self, calls = [], raised = None\<rparr>"
proof -
  have kw: "float_truediv_int (Finite 0) 1000 = Inr (Finite 0)"
    by (simp add: float_truediv_int_def rnd64_0)
  have c: "float_round (float_mul (Finite 0) (Finite 0)) 2 = Finite 0"
    by (simp add: float_round_def rnd64_0 round_half_even_0)
  show ?thesis
    by (subst handle_state_change_numeric[where s = "''0''" and electricity_price = "''0''"
          and power_usage = "''0''" and price = "Finite 0" and watts = "Finite 0"
          and kw = "Finite 0"])
       (simp_all add: assms float_of_str_0 kw rnd64_0 float_round_def round_half_even_0
          float_ne_decimal_def decimal_of_float_def dec_is_nan_def)
qed

text \<open>
  Claim C4, as stated, fails: of two consecutive identical inputs the first publishes
  only if its rate differs from the rate published before. A new sensor holds the rate 0;
  with the price 0 and the power 0 the computed rate is 0 both times, and neither event
  publishes anything.
\<close>

theorem C4_counterexample:
  "published (calls (handle_state_change
       (RealTimeCostSensor_init ''sensor.price'' ''sensor.power'')
       [''sensor.price'' \<mapsto> ''0'', ''sensor.power'' \<mapsto> ''0'']
       \<lparr>entity_id = ''sensor.power'', new_state = Some ''0''\<rparr>))
   + published (calls (handle_state_change
       (after (handle_state_change
          (RealTimeCostSensor_init ''sensor.price'' ''sensor.power'')
          [''sensor.price'' \<mapsto> ''0'', ''sensor.power'' \<mapsto> ''0'']
          \<lparr>entity_id = ''sensor.power'', new_state = Some ''0''\<rparr>))
       [''sensor.price'' \<mapsto> ''0'', ''sensor.power'' \<mapsto> ''0'']
       \<lparr>entity_id = ''sensor.power'', new_state = Some ''0''\<rparr>))
   = 0"
proof -
  let ?self = "RealTimeCostSensor_init ''sensor.price'' ''sensor.power''"
  have z: "handle_state_change ?self [''sensor.price'' \<mapsto> ''0'', ''sensor.power'' \<mapsto> ''0'']
             \<lparr>entity_id = ''sensor.power'', new_state = Some ''0''\<rparr>
           = \<lparr>after = ?self, calls = [], raised = None\<rparr>"
    by (rule handle_state_change_zero) (simp_all add: RealTimeCostSensor_init_def)
  show ?thesis by (simp add: z published_def)
qed

text \<open>
  Claim C4, amended. For numeric inputs, an event whose rounded rate equals the
  published rate publishes nothing and leaves the sensor as it is, and one whose rounded
  rate differs publishes exactly once. Hence, of two consecutive identical inputs whose
  rounded rate is not NaN, the second publishes nothing; the first publishes once when
  its rate differs from the rate published before, and not at all when it equals it.
\<close>

theorem C4_publish_only_changes:
  assumes "new_state ev = Some s" and "s \<notin> set [''unknown'', ''unavailable'']"
    and "states (electricity_price_sensor_id self) = Some electricity_price"
    and "states (power_sensor_id self) = Some power_usage"
    and "float_of_str electricity_price = Inr price"
    and "float_of_str power_usage = Inr watts"
    and "float_truediv_int watts 1000 = Inr kw"
  shows "(\<not> float_ne_decimal (float_round (float_mul price kw) 2) (rtc_state self)
            \<longrightarrow> published (calls (handle_state_change self states ev)) = 0
                \<and> after (handle_state_change self states ev) = self)
         \<and> (float_ne_decimal (float_round (float_mul price kw) 2) (rtc_state self)
            \<longrightarrow> published (calls (handle_state_change self states ev)) = 1)
         \<and> (float_round (float_mul price kw) 2 \<noteq> NaN
            \<longrightarrow> published (calls (handle_state_change
                   (after (handle_state_change self states ev)) states ev)) = 0)"
proof -
  let ?c = "float_round (float_mul price kw) 2"
  let ?r1 = "handle_state_change self states ev"
  note h = handle_state_change_numeric[OF assms]
  have 1: "published (calls ?r1) = 0 \<and> after ?r1 = self"
    if "\<not> float_ne_decimal ?c (rtc_state self)"
    using that by (simp add: h published_def)
  have 2: "published (calls ?r1) = 1" if "float_ne_decimal ?c (rtc_state self)"
    using that by (simp add: h published_def)
  have st: "rtc_state (after ?r1) = decimal_of_float ?c"
    by (auto simp: h float_ne_decimal_def)
  have ids: "electricity_price_sensor_id (after ?r1) = electricity_price_sensor_id self"
    "power_sensor_id (after ?r1) = power_sensor_id self"
    by (simp_all add: h)
  have h2: "handle_state_change (after ?r1) states ev
            = (if float_ne_decimal ?c (rtc_state (after ?r1))
               then \<lparr>after = (after ?r1)\<lparr>rtc_state := decimal_of_float ?c\<rparr>,
                     calls = [Write_ha_state (decimal_of_float ?c),
                              Log DEBUG ''Updated Real Time Energy Cost''],
                     raised = None\<rparr>
               else \<lparr>after = after ?r1, calls = [], raised = None\<rparr>)"
    by (rule handle_state_change_numeric[OF assms(1,2) _ _ assms(5,6,7)])
       (simp_all only: ids assms(3,4))
  have 3: "published (calls (handle_state_change (after ?r1) states ev)) = 0" if "?c \<noteq> NaN"
    using that by (simp add: h2 st float_ne_decimal_self published_def)
  from 1 2 3 show ?thesis by blast
qed

theorem C4_publish_only_changes_witness:
  "float_of_str ''0.25'' = Inr (Finite (1 / 4))
   \<and> float_of_str ''2000'' = Inr (Finite 2000)
   \<and> float_truediv_int (Finite 2000) 1000 = Inr (Finite 2)
   \<and> float_round (float_mul (Finite (1 / 4)) (Finite 2)) 2 = Finite (1 / 2)
   \<and> published (calls (handle_state_change
         (RealTimeCostSensor_init ''sensor.price'' ''sensor.power'')
         [''sensor.price'' \<mapsto> ''0.25'', ''sensor.power'' \<mapsto> ''2000'']
         \<lparr>entity_id = ''sensor.power'', new_state = Some ''2000''\<rparr>)) = 1
   \<and> published (calls (handle_state_change
         (after (handle_state_change
            (RealTimeCostSensor_init ''sensor.price'' ''sensor.power'')
            [''sensor.price'' \<mapsto> ''0.25'', ''sensor.power'' \<mapsto> ''2000'']
            \<lparr>entity_id = ''sensor.power'', new_state = Some ''2000''\<rparr>))
         [''sensor.price'' \<mapsto> ''0.25'', ''sensor.power'' \<mapsto> ''2000'']
         \<lparr>entity_id = ''sensor.power'', new_state = Some ''2000''\<rparr>)) = 0"
proof -
  let ?self = "RealTimeCostSensor_init ''sensor.price'' ''sensor.power''"
  let ?states = "[''sensor.price'' \<mapsto> ''0.25'', ''sensor.power'' \<mapsto> ''2000'']"
  let ?ev = "\<lparr>entity_id = ''sensor.power'', new_state = Some ''2000''\<rparr>"
  have kw: "float_truediv_int (Finite 2000) 1000 = Inr (Finite 2)"
    by (simp add: float_truediv_int_def rnd64_2)
  have c: "float_round (float_mul (Finite (1 / 4)) (Finite 2)) 2 = Finite (1 / 2)"
    by (simp add: float_round_def rnd64_half round_half_even_50)
  have ne: "float_ne_decimal (Finite (1 / 2)) (rtc_state ?self)"
    by (simp add: float_ne_decimal_def RealTimeCostSensor_init_def decimal_of_float_def)
  have t: "(\<not> float_ne_decimal (float_round (float_mul (Finite (1 / 4)) (Finite 2)) 2)
               (rtc_state ?self)
            \<longrightarrow> published (calls (handle_state_change ?self ?states ?ev)) = 0
                \<and> after (handle_state_change ?self ?states ?ev) = ?self)
         \<and> (float_ne_decimal (float_round (float_mul (Finite (1 / 4)) (Finite 2)) 2)
               (rtc_state ?self)
            \<longrightarrow> published (calls (handle_state_change ?self ?states ?ev)) = 1)
         \<and> (float_round (float_mul (Finite (1 / 4)) (Finite 2)) 2 \<noteq> NaN
            \<longrightarrow> published (calls (handle_state_change
                   (after (handle_state_change ?self ?states ?ev)) ?states ?ev)) = 0)"
    by (rule C4_publish_only_changes[where s = "''2000''" and electricity_price = "''0.25''"
          and power_usage = "''2000''" and price = "Finite (1 / 4)" and watts = "Finite 2000"
          and kw = "Finite 2"])
       (simp_all add: RealTimeCostSensor_init_def float_of_str_025 float_of_str_2000 kw)
  from t ne have "published (calls (handle_state_change ?self ?states ?ev)) = 1"
    unfolding c by blast
  moreover from t have "published (calls (handle_state_change
      (after (handle_state_change ?self ?states ?ev)) ?states ?ev)) = 0"
    unfolding c by simp
  ultimately show ?thesis
    using kw c by (simp add: float_of_str_025 float_of_str_2000)
qed

end
